theory Spec2Isabelle
  imports Complex_Main "HOL-Library.AList" "HOL-Library.Multiset"
begin

section \<open>Conventions of the embedding\<close>

text \<open>
  The Go sources of Fogger are embedded function by function, under the names of the source.

  \<^item> A Go \<^verbatim>\<open>map[K]V\<close> is an association list with pairwise distinct keys: \<open>map_of\<close> is the
    lookup, \<open>AList.update\<close> the assignment \<^verbatim>\<open>m[k] = v\<close>, \<open>AList.delete\<close> the built-in
    \<^verbatim>\<open>delete\<close>, \<open>length\<close> the built-in \<^verbatim>\<open>len\<close>. Go leaves the order of a \<^verbatim>\<open>range\<close> over
    a map unspecified; the order of the list stands for the order of one run, and every theorem
    about such a loop is stated for an arbitrary list, hence for every order.
  \<^item> A \<^verbatim>\<open>float64\<close> is a value of the type \<open>f64\<close> below: a finite value, carried as the real
    number it denotes, or one of the three non-finite values of IEEE 754. Every operation rounds
    its exact result to the nearest binary64 number, ties to even (\<open>round64\<close>): 53 bits of
    mantissa, subnormal numbers on the grid of \<open>2\<^sup>-\<^sup>1\<^sup>0\<^sup>7\<^sup>4\<close>, overflow to an infinity. A decimal
    literal \<^verbatim>\<open>0.3\<close> of the source is \<open>c64 0.3\<close>, the binary64 number nearest to it. The model has
    one zero (no negative zero), and the compiler is taken not to fuse a multiplication with an
    addition.
  \<^item> A \<^verbatim>\<open>time.Time\<close> is a natural number of ticks, and \<^verbatim>\<open>time.Now()\<close> is an argument \<open>now\<close> of
    the function that reads the clock.
  \<^item> Functions of Go's standard library that the sources call on strings and that depend on
    Unicode or on the network address syntax are fields of the record \<open>golib\<close>; the theorems
    hold for every such record.
  \<^item> Two structs of the source may share a field name; the later one then carries a prefix
    that names its struct (\<open>Cluster_Confidence\<close>, \<open>Result_JLIScore\<close>, \<open>Change_Signals\<close>).
  \<^item> The network scan of \<^verbatim>\<open>AnalyzeDomain\<close> is an argument. \<open>finalScore\<close> and \<open>finalLevel\<close> are the
    score and the level that \<^verbatim>\<open>AnalyzeDomain\<close> computes from the signals of the scan; \<open>tick\<close>, one
    firing of the ticker in \<^verbatim>\<open>runMonitor\<close>, and \<^verbatim>\<open>AddDomain\<close> take the scan as a function of the
    domain and call it where the source calls \<^verbatim>\<open>AnalyzeDomain\<close>.
\<close>

section \<open>float64\<close>

datatype f64 = Fin real | PInf | NInf | NaN

text \<open>
  Rounding to binary64. \<open>pow2 e\<close> is \<open>2\<^sup>e\<close> for an integer \<open>e\<close>; \<open>rne\<close> rounds a real to the nearest
  integer, a tie to the even one; \<open>expo64 x\<close> is the exponent of the last place of the binary64
  numbers around \<open>x\<close> (52 places below the leading bit of \<open>x\<close>, and never below the subnormal
  grid); \<open>round64 x\<close> is \<open>x\<close> rounded to a multiple of \<open>pow2 (expo64 x)\<close>, an infinity when the
  rounded value reaches \<open>2\<^sup>1\<^sup>0\<^sup>2\<^sup>4\<close>.
\<close>

definition pow2 :: "int \<Rightarrow> real" where
  "pow2 e = (if 0 \<le> e then 2 ^ nat e else 1 / 2 ^ nat (- e))"

definition rne :: "real \<Rightarrow> int" where
  "rne r = (let f = \<lfloor>r\<rfloor>; d = r - of_int f
            in if d < 1 / 2 then f else if 1 / 2 < d then f + 1 else if even f then f else f + 1)"

definition expo64 :: "real \<Rightarrow> int" where
  "expo64 x = max (\<lfloor>log 2 \<bar>x\<bar>\<rfloor> - 52) (- 1074)"

definition huge :: real where
  "huge = 2 ^ 1024"

definition round64 :: "real \<Rightarrow> f64" where
  "round64 x =
     (if x = 0 then Fin 0
      else (let e = expo64 x; y = of_int (rne (x / pow2 e)) * pow2 e
            in if huge \<le> \<bar>y\<bar> then (if 0 < x then PInf else NInf) else Fin y))"

text \<open>The value of a decimal literal of the source.\<close>

definition c64 :: "real \<Rightarrow> f64" where
  "c64 x = round64 x"

fun fneg :: "f64 \<Rightarrow> f64" where
  "fneg (Fin a) = Fin (- a)"
| "fneg PInf = NInf"
| "fneg NInf = PInf"
| "fneg NaN = NaN"

fun fadd :: "f64 \<Rightarrow> f64 \<Rightarrow> f64" where
  "fadd NaN y = NaN"
| "fadd x NaN = NaN"
| "fadd PInf NInf = NaN"
| "fadd NInf PInf = NaN"
| "fadd PInf y = PInf"
| "fadd NInf y = NInf"
| "fadd (Fin a) PInf = PInf"
| "fadd (Fin a) NInf = NInf"
| "fadd (Fin a) (Fin b) = round64 (a + b)"

definition fsub :: "f64 \<Rightarrow> f64 \<Rightarrow> f64" where
  "fsub x y = fadd x (fneg y)"

text \<open>The sign of a product with an infinite factor; zero times infinity is NaN.\<close>

definition inf_times :: "bool \<Rightarrow> real \<Rightarrow> f64" where
  "inf_times pos a =
     (if a = 0 then NaN else if (0 < a) = pos then PInf else NInf)"

fun fmul :: "f64 \<Rightarrow> f64 \<Rightarrow> f64" where
  "fmul NaN y = NaN"
| "fmul x NaN = NaN"
| "fmul PInf PInf = PInf"
| "fmul PInf NInf = NInf"
| "fmul NInf PInf = NInf"
| "fmul NInf NInf = PInf"
| "fmul PInf (Fin b) = inf_times True b"
| "fmul NInf (Fin b) = inf_times False b"
| "fmul (Fin a) PInf = inf_times True a"
| "fmul (Fin a) NInf = inf_times False a"
| "fmul (Fin a) (Fin b) = round64 (a * b)"

text \<open>
  Division. A finite non-zero value over zero is an infinity (of the sign of the dividend, the
  model having one zero), zero over zero and infinity over infinity are NaN.
\<close>

fun fdiv :: "f64 \<Rightarrow> f64 \<Rightarrow> f64" where
  "fdiv NaN y = NaN"
| "fdiv x NaN = NaN"
| "fdiv (Fin a) (Fin b) =
     (if b = 0 then (if a = 0 then NaN else if 0 < a then PInf else NInf)
      else round64 (a / b))"
| "fdiv (Fin a) PInf = Fin 0"
| "fdiv (Fin a) NInf = Fin 0"
| "fdiv PInf (Fin b) = (if 0 \<le> b then PInf else NInf)"
| "fdiv NInf (Fin b) = (if 0 \<le> b then NInf else PInf)"
| "fdiv PInf y = NaN"
| "fdiv NInf y = NaN"

text \<open>Comparisons: every comparison with NaN is false.\<close>

fun flt :: "f64 \<Rightarrow> f64 \<Rightarrow> bool" where
  "flt NaN y = False"
| "flt x NaN = False"
| "flt (Fin a) (Fin b) = (a < b)"
| "flt (Fin a) PInf = True"
| "flt (Fin a) NInf = False"
| "flt NInf NInf = False"
| "flt NInf y = True"
| "flt PInf y = False"

definition fgt :: "f64 \<Rightarrow> f64 \<Rightarrow> bool" where
  "fgt x y = flt y x"

fun fge :: "f64 \<Rightarrow> f64 \<Rightarrow> bool" where
  "fge NaN y = False"
| "fge x NaN = False"
| "fge x y = (\<not> flt x y)"

text \<open>The conversion \<^verbatim>\<open>float64(n)\<close> of a length or a counter.\<close>

definition float64 :: "nat \<Rightarrow> f64" where
  "float64 n = round64 (real n)"

text \<open>A value the callers of the scorer may take for a score: a number between 0 and 1.\<close>

fun unit_range :: "f64 \<Rightarrow> bool" where
  "unit_range (Fin a) = (0 \<le> a \<and> a \<le> 1)"
| "unit_range x = False"

section \<open>internal/models/models.go\<close>

type_synonym time = nat

record Evidence =
  Type :: string
  Reference :: string
  Timestamp :: time

record Signal =
  SignalID :: string
  Category :: string
  Description :: string
  Confidence :: f64
  Evidence :: "Evidence list"

record Domain =
  Domain :: string
  FirstSeen :: time
  LastSeen :: time
  CDNProvider :: string
  JLIScore :: f64
  JLILevel :: string
  ClusterID :: "string option"
  Signals :: "Signal list"

record CategoryBreakdown =
  Score :: f64
  Weight :: f64
  Contribution :: f64

record AnalysisResult =
  Result_Domain :: Domain
  Result_JLIScore :: f64
  Result_JLILevel :: string
  Result_CategoryBreakdown :: "(string \<times> CategoryBreakdown) list"
  ProfileUsed :: string

section \<open>internal/config\<close>

record ScoringConfig =
  GamblingUI :: f64
  PaymentSignal :: f64
  InfraCorrelation :: f64
  DomainChurn :: f64
  CDNPattern :: f64

record ThresholdConfig =
  High :: f64
  Medium :: f64

record Config =
  Scoring :: ScoringConfig
  Threshold :: ThresholdConfig

text \<open>
  The errors of \<^verbatim>\<open>validateProfile\<close>, one constructor for each \<^verbatim>\<open>fmt.Errorf\<close> of the source, with
  the values the message prints.
\<close>

datatype config_error =
  WeightsSum f64
| HighBelowMedium f64 f64
| ThresholdsOutOfRange

text \<open>The comparison \<^verbatim>\<open>!=\<close> of two floats: NaN differs from everything, itself included.\<close>

definition fne :: "f64 \<Rightarrow> f64 \<Rightarrow> bool" where
  "fne x y = (x = NaN \<or> y = NaN \<or> x \<noteq> y)"

definition totalWeight :: "ScoringConfig \<Rightarrow> f64" where
  "totalWeight s =
     fadd (fadd (fadd (fadd (GamblingUI s) (PaymentSignal s)) (InfraCorrelation s))
       (DomainChurn s)) (CDNPattern s)"

text \<open>\<^verbatim>\<open>validateProfile\<close> (manager.go): \<open>None\<close> is Go's \<^verbatim>\<open>nil\<close> error.\<close>

definition validateProfile :: "Config \<Rightarrow> config_error option" where
  "validateProfile profile =
     (if fne (totalWeight (Scoring profile)) (Fin 1)
        then Some (WeightsSum (totalWeight (Scoring profile)))
      else if flt (High (Threshold profile)) (Medium (Threshold profile))
        then Some (HighBelowMedium (High (Threshold profile)) (Medium (Threshold profile)))
      else if fgt (High (Threshold profile)) (Fin 1) \<or> fgt (Medium (Threshold profile)) (Fin 1)
            \<or> flt (High (Threshold profile)) (Fin 0) \<or> flt (Medium (Threshold profile)) (Fin 0)
        then Some ThresholdsOutOfRange
      else None)"

text \<open>\<^verbatim>\<open>CreateProfile\<close> builds the profile and returns what \<^verbatim>\<open>validateProfile\<close> returns.\<close>

definition CreateProfile :: "string \<Rightarrow> ScoringConfig \<Rightarrow> ThresholdConfig \<Rightarrow> config_error option" where
  "CreateProfile name scoring threshold =
     validateProfile \<lparr>Scoring = scoring, Threshold = threshold\<rparr>"

definition GetDefaultConfig :: Config where
  "GetDefaultConfig =
     \<lparr>Scoring = \<lparr>GamblingUI = c64 0.30, PaymentSignal = c64 0.25, InfraCorrelation = c64 0.20,
                 DomainChurn = c64 0.15, CDNPattern = c64 0.10\<rparr>,
      Threshold = \<lparr>High = c64 0.75, Medium = c64 0.50\<rparr>\<rparr>"

text \<open>
  \<^verbatim>\<open>Initialize\<close> (config.go), the load of the configuration. Its argument is what
  \<^verbatim>\<open>viper.Unmarshal\<close> produced from the defaults and the configuration file: \<open>None\<close> when the
  unmarshalling failed. The result is either the fatal exit of \<^verbatim>\<open>log.Fatalf\<close> or the
  configuration installed in the package variable, together with the lines written to the log.
\<close>

datatype load_log = WeightsWarning f64

datatype load_result = Fatal | Loaded Config "load_log list"

definition Initialize :: "Config option \<Rightarrow> load_result" where
  "Initialize unmarshalled =
     (case unmarshalled of
        None \<Rightarrow> Fatal
      | Some config \<Rightarrow>
          if fne (totalWeight (Scoring config)) (Fin 1)
          then Loaded config [WeightsWarning (totalWeight (Scoring config))]
          else Loaded config [])"

section \<open>The scorer (AnalyzeDomain and its helpers)\<close>

text \<open>A read \<^verbatim>\<open>m[k]\<close> of a \<^verbatim>\<open>map[string]float64\<close>: a missing key reads as 0.\<close>

definition lookup0 :: "(string \<times> f64) list \<Rightarrow> string \<Rightarrow> f64" where
  "lookup0 m k = (case map_of m k of None \<Rightarrow> Fin 0 | Some v \<Rightarrow> v)"

text \<open>
  \<^verbatim>\<open>calculateCategoryScoresWithSignals\<close>: the loop over the signals, with the map built so far
  as accumulator.
\<close>

fun categoryScoresLoop :: "(string \<times> f64) list \<Rightarrow> Signal list \<Rightarrow> (string \<times> f64) list" where
  "categoryScoresLoop categoryScores [] = categoryScores"
| "categoryScoresLoop categoryScores (signal # signals) =
     (let currentScore = (case map_of categoryScores (Category signal) of
                            None \<Rightarrow> Fin 0 | Some v \<Rightarrow> v)
      in if fgt (Confidence signal) currentScore
         then categoryScoresLoop
                (AList.update (Category signal) (Confidence signal) categoryScores) signals
         else categoryScoresLoop categoryScores signals)"

definition calculateCategoryScoresWithSignals :: "Signal list \<Rightarrow> (string \<times> f64) list" where
  "calculateCategoryScoresWithSignals signals = categoryScoresLoop [] signals"

text \<open>\<^verbatim>\<open>calculateConfidenceFactor\<close>: the number of entries with a positive score.\<close>

definition calculateConfidenceFactor :: "(string \<times> f64) list \<Rightarrow> f64" where
  "calculateConfidenceFactor categoryScores =
     (let count = length (filter (\<lambda>(category, score). fgt score (Fin 0)) categoryScores)
      in if 3 \<le> count then Fin 1 else fmul (float64 count) (c64 0.33))"

definition clamp01 :: "f64 \<Rightarrow> f64" where
  "clamp01 x =
     (let x1 = (if fgt x (Fin 1) then Fin 1 else x)
      in if flt x1 (Fin 0) then Fin 0 else x1)"

definition calculateJLIScore :: "(string \<times> f64) list \<Rightarrow> ScoringConfig \<Rightarrow> f64" where
  "calculateJLIScore categoryScores weights =
     (let jliRaw = Fin 0;
          jliRaw = fadd jliRaw (fmul (lookup0 categoryScores ''UX'') (GamblingUI weights));
          jliRaw = fadd jliRaw (fmul (lookup0 categoryScores ''PAYMENT'') (PaymentSignal weights));
          jliRaw = fadd jliRaw (fmul (lookup0 categoryScores ''INFRA'') (InfraCorrelation weights));
          jliRaw = fadd jliRaw (fmul (lookup0 categoryScores ''DNS'') (DomainChurn weights));
          jliRaw = fadd jliRaw (fmul (lookup0 categoryScores ''CDN'') (CDNPattern weights));
          confidenceFactor = calculateConfidenceFactor categoryScores;
          jliScore = fmul jliRaw confidenceFactor
      in clamp01 jliScore)"

definition calculateSignalFactor :: "Signal list \<Rightarrow> f64" where
  "calculateSignalFactor signals =
     (let highConfidenceCount = length (filter (\<lambda>signal. fge (Confidence signal) (c64 0.8)) signals);
          totalCount = length signals
      in if 0 < totalCount
            \<and> fge (fdiv (float64 highConfidenceCount) (float64 totalCount)) (c64 0.7)
         then c64 1.2 else Fin 1)"

definition calculateTemporalFactor :: f64 where
  "calculateTemporalFactor = Fin 1"

definition calculateEnhancedJLIScore ::
  "(string \<times> f64) list \<Rightarrow> ScoringConfig \<Rightarrow> Signal list \<Rightarrow> f64" where
  "calculateEnhancedJLIScore categoryScores weights signals =
     (let jliBase = calculateJLIScore categoryScores weights;
          signalFactor = calculateSignalFactor signals;
          temporalFactor = calculateTemporalFactor;
          enhancedScore = fmul (fmul jliBase signalFactor) temporalFactor
      in clamp01 enhancedScore)"

definition classifyJLILevel :: "f64 \<Rightarrow> ThresholdConfig \<Rightarrow> string" where
  "classifyJLILevel jliScore thresholds =
     (if fge jliScore (High thresholds) then ''HIGH''
      else if fge jliScore (Medium thresholds) then ''MEDIUM''
      else ''LOW'')"

text \<open>
  The score and the level \<^verbatim>\<open>AnalyzeDomain\<close> puts into its result for the signals of a scan,
  under the configuration \<open>cfg\<close>.
\<close>

definition finalScore :: "Config \<Rightarrow> Signal list \<Rightarrow> f64" where
  "finalScore cfg allSignals =
     calculateEnhancedJLIScore (calculateCategoryScoresWithSignals allSignals) (Scoring cfg) allSignals"

definition finalLevel :: "Config \<Rightarrow> Signal list \<Rightarrow> string" where
  "finalLevel cfg allSignals = classifyJLILevel (finalScore cfg allSignals) (Threshold cfg)"

section \<open>Go's standard library\<close>

text \<open>
  The library functions the cluster engine and the monitor call and that are not modelled
  here: \<open>md5hex data\<close> is \<^verbatim>\<open>hex.EncodeToString\<close> of the MD5 sum of \<open>data\<close>, \<open>ParseIP s\<close> is
  \<^verbatim>\<open>net.ParseIP(s) != nil\<close>, \<open>Fields\<close> and \<open>TrimSpace\<close> are those of package \<^verbatim>\<open>strings\<close>, and
  \<open>SprintfScoreChange old new\<close> is
  \<^verbatim>\<open>fmt.Sprintf("JLI score changed from %.3f to %.3f", old, new)\<close>.
\<close>

record golib =
  md5hex :: "string \<Rightarrow> string"
  ParseIP :: "string \<Rightarrow> bool"
  Fields :: "string \<Rightarrow> string list"
  TrimSpace :: "string \<Rightarrow> string"
  SprintfScoreChange :: "f64 \<Rightarrow> f64 \<Rightarrow> string"

text \<open>\<^verbatim>\<open>strings.HasPrefix\<close> and \<^verbatim>\<open>strings.Contains\<close>, on the bytes of the strings.\<close>

fun HasPrefix :: "string \<Rightarrow> string \<Rightarrow> bool" where
  "HasPrefix s [] = True"
| "HasPrefix [] (p # ps) = False"
| "HasPrefix (c # cs) (p # ps) = (c = p \<and> HasPrefix cs ps)"

fun Contains :: "string \<Rightarrow> string \<Rightarrow> bool" where
  "Contains [] substr = (substr = [])"
| "Contains (c # cs) substr = (HasPrefix (c # cs) substr \<or> Contains cs substr)"

text \<open>
  \<^verbatim>\<open>desc[strings.Index(desc, ":")+1:]\<close>: what follows the first colon, \<open>None\<close> when
  \<^verbatim>\<open>strings.Index\<close> returns -1.
\<close>

fun afterColon :: "string \<Rightarrow> string option" where
  "afterColon [] = None"
| "afterColon (c # cs) = (if c = CHR '':'' then Some cs else afterColon cs)"

text \<open>\<^verbatim>\<open>strings.Split(s, " ")\<close>; \<open>word\<close> is the part being read.\<close>

fun splitSpace :: "string \<Rightarrow> string \<Rightarrow> string list" where
  "splitSpace word [] = [word]"
| "splitSpace word (c # cs) =
     (if c = CHR '' '' then word # splitSpace [] cs else splitSpace (word @ [c]) cs)"

definition Split :: "string \<Rightarrow> string list" where
  "Split s = splitSpace [] s"

text \<open>The decimal digits of \<^verbatim>\<open>%d\<close>.\<close>

fun itoa :: "nat \<Rightarrow> string" where
  "itoa n =
     (if n < 10 then [char_of (48 + n)] else itoa (n div 10) @ [char_of (48 + n mod 10)])"

declare itoa.simps [simp del]

section \<open>The cluster engine\<close>

record Cluster =
  ID :: string
  Cluster_Confidence :: f64
  Domains :: "string list"
  SharedSignals :: "string list"
  Cluster_FirstSeen :: time
  Cluster_LastSeen :: time
  SharedResources :: "(string \<times> string) list"

record ClusterEngine =
  Clusters :: "(string \<times> Cluster) list"

definition NewClusterEngine :: ClusterEngine where
  "NewClusterEngine = \<lparr>Clusters = []\<rparr>"

text \<open>The signals of an analysis: \<^verbatim>\<open>analysis.Domain.Signals\<close>.\<close>

definition signalsOf :: "AnalysisResult \<Rightarrow> Signal list" where
  "signalsOf analysis = Signals (Result_Domain analysis)"

text \<open>\<^verbatim>\<open>extractIPFromDescription\<close>: the first field that parses as an address.\<close>

fun firstIP :: "golib \<Rightarrow> string list \<Rightarrow> string" where
  "firstIP L [] = ''''"
| "firstIP L (part # parts) = (if ParseIP L part then part else firstIP L parts)"

definition extractIPFromDescription :: "golib \<Rightarrow> string \<Rightarrow> string" where
  "extractIPFromDescription L desc = firstIP L (Fields L desc)"

text \<open>\<^verbatim>\<open>extractWalletFromDescription\<close>.\<close>

fun firstWallet :: "golib \<Rightarrow> string list \<Rightarrow> string" where
  "firstWallet L [] = ''''"
| "firstWallet L (part # parts) =
     (let trimmed = TrimSpace L part
      in if 20 < length trimmed \<and> length trimmed < 50 then trimmed else firstWallet L parts)"

definition extractWalletFromDescription :: "golib \<Rightarrow> string \<Rightarrow> string" where
  "extractWalletFromDescription L desc =
     (case afterColon desc of
        Some rest \<Rightarrow> firstWallet L (Split rest)
      | None \<Rightarrow> '''')"

text \<open>\<^verbatim>\<open>extractSharedResources\<close>: the loop over the signals, \<open>resources\<close> the map built so far.\<close>

fun sharedResourcesLoop ::
  "golib \<Rightarrow> (string \<times> string) list \<Rightarrow> Signal list \<Rightarrow> (string \<times> string) list" where
  "sharedResourcesLoop L resources [] = resources"
| "sharedResourcesLoop L resources (signal # signals) =
     (if Category signal = ''INFRA'' \<and> Contains (Description signal) ''origin IP'' then
        (let ip = extractIPFromDescription L (Description signal)
         in if ip \<noteq> '''' then sharedResourcesLoop L (AList.update ''ip'' ip resources) signals
            else sharedResourcesLoop L resources signals)
      else if Category signal = ''PAYMENT''
              \<and> Contains (Description signal) ''cryptocurrency address'' then
        (let wallet = extractWalletFromDescription L (Description signal)
         in if wallet \<noteq> ''''
            then sharedResourcesLoop L (AList.update ''wallet'' wallet resources) signals
            else sharedResourcesLoop L resources signals)
      else sharedResourcesLoop L resources signals)"

definition extractSharedResources :: "golib \<Rightarrow> AnalysisResult \<Rightarrow> (string \<times> string) list" where
  "extractSharedResources L analysis = sharedResourcesLoop L [] (signalsOf analysis)"

text \<open>\<^verbatim>\<open>extractSharedSignals\<close>: the ids of the INFRA and PAYMENT signals.\<close>

definition extractSharedSignals :: "AnalysisResult \<Rightarrow> string list" where
  "extractSharedSignals analysis =
     map SignalID
       (filter (\<lambda>signal. Category signal = ''INFRA'' \<or> Category signal = ''PAYMENT'')
          (signalsOf analysis))"

text \<open>
  \<^verbatim>\<open>extractSignalCategories\<close>: the keys of the map that has one entry for each category of a
  signal.
\<close>

definition extractSignalCategories :: "AnalysisResult \<Rightarrow> string list" where
  "extractSignalCategories analysis =
     map fst
       (foldl (\<lambda>signalMap signal. AList.update (Category signal) True signalMap) []
          (signalsOf analysis))"

text \<open>The inner loop of \<^verbatim>\<open>calculateClusterSimilarity\<close>, which breaks at the first match.\<close>

fun matchesAny :: "string \<Rightarrow> string list \<Rightarrow> bool" where
  "matchesAny clusterSignal [] = False"
| "matchesAny clusterSignal (analysisSignal # rest) =
     (if clusterSignal = analysisSignal then True else matchesAny clusterSignal rest)"

definition calculateClusterSimilarity :: "golib \<Rightarrow> Cluster \<Rightarrow> AnalysisResult \<Rightarrow> f64" where
  "calculateClusterSimilarity L cluster analysis =
     (let score = Fin 0;
          analysisSignals = extractSignalCategories analysis;
          sharedSignalCount =
            length (filter (\<lambda>clusterSignal. matchesAny clusterSignal analysisSignals)
                      (SharedSignals cluster));
          score = (if 0 < length (SharedSignals cluster)
                   then fadd score
                          (fmul (fdiv (float64 sharedSignalCount)
                                   (float64 (length (SharedSignals cluster)))) (c64 0.4))
                   else score);
          analysisResources = extractSharedResources L analysis;
          sharedResourceCount =
            length (filter (\<lambda>(resType, resValue).
                              case map_of (SharedResources cluster) resType of
                                Some clusterRes \<Rightarrow> clusterRes = resValue
                              | None \<Rightarrow> False)
                      analysisResources);
          score = (if 0 < length analysisResources
                   then fadd score
                          (fmul (fdiv (float64 sharedResourceCount)
                                   (float64 (length analysisResources))) (c64 0.6))
                   else score)
      in score)"

text \<open>
  \<^verbatim>\<open>findBestCluster\<close>: the loop carries \<^verbatim>\<open>bestClusterID\<close> and \<^verbatim>\<open>bestScore\<close>; the empty string
  is the answer "no cluster".
\<close>

fun findBestLoop ::
  "golib \<Rightarrow> AnalysisResult \<Rightarrow> string \<Rightarrow> f64 \<Rightarrow> (string \<times> Cluster) list \<Rightarrow> string" where
  "findBestLoop L analysis bestClusterID bestScore [] = bestClusterID"
| "findBestLoop L analysis bestClusterID bestScore ((clusterID, cluster) # rest) =
     (let score = calculateClusterSimilarity L cluster analysis
      in if fgt score bestScore \<and> fge score (c64 0.5)
         then findBestLoop L analysis clusterID score rest
         else findBestLoop L analysis bestClusterID bestScore rest)"

definition findBestCluster :: "golib \<Rightarrow> ClusterEngine \<Rightarrow> AnalysisResult \<Rightarrow> string" where
  "findBestCluster L ce analysis =
     (if length (Clusters ce) = 0 then ''''
      else findBestLoop L analysis '''' (Fin 0) (Clusters ce))"

definition generateClusterID :: "golib \<Rightarrow> string \<Rightarrow> AnalysisResult \<Rightarrow> string" where
  "generateClusterID L domain analysis =
     take 12 (md5hex L
       (foldl (\<lambda>data signal.
                 if Category signal = ''PAYMENT'' \<or> Category signal = ''INFRA''
                 then data @ SignalID signal else data)
          domain (signalsOf analysis)))"

definition updateSharedResources :: "golib \<Rightarrow> Cluster \<Rightarrow> AnalysisResult \<Rightarrow> Cluster" where
  "updateSharedResources L cluster analysis =
     cluster\<lparr>SharedResources :=
       foldl (\<lambda>resources (resType, resValue).
                case map_of resources resType of
                  None \<Rightarrow> AList.update resType resValue resources
                | Some existing \<Rightarrow> resources)
         (SharedResources cluster) (extractSharedResources L analysis)\<rparr>"

text \<open>
  \<^verbatim>\<open>AddDomainToCluster\<close> returns the id of the cluster and leaves the engine changed. The result
  \<open>None\<close> is the panic of a nil dereference: \<^verbatim>\<open>ce.Clusters[bestClusterID]\<close> for an id that is
  not a key.
\<close>

definition AddDomainToCluster ::
  "golib \<Rightarrow> time \<Rightarrow> string \<Rightarrow> AnalysisResult \<Rightarrow> ClusterEngine
     \<Rightarrow> (string \<times> ClusterEngine) option" where
  "AddDomainToCluster L now domain analysis ce =
     (let bestClusterID = findBestCluster L ce analysis
      in if bestClusterID \<noteq> '''' then
           (case map_of (Clusters ce) bestClusterID of
              None \<Rightarrow> None
            | Some cluster \<Rightarrow>
                (let cluster = cluster\<lparr>Domains := Domains cluster @ [domain]\<rparr>;
                     cluster = cluster\<lparr>Cluster_LastSeen := now\<rparr>;
                     cluster = updateSharedResources L cluster analysis
                 in Some (bestClusterID,
                      ce\<lparr>Clusters := AList.update bestClusterID cluster (Clusters ce)\<rparr>)))
         else
           (let clusterID = generateClusterID L domain analysis;
                newCluster = \<lparr>ID = clusterID, Cluster_Confidence = Fin 1, Domains = [domain],
                              SharedSignals = extractSharedSignals analysis,
                              Cluster_FirstSeen = now, Cluster_LastSeen = now,
                              SharedResources = extractSharedResources L analysis\<rparr>
            in Some (clusterID, ce\<lparr>Clusters := AList.update clusterID newCluster (Clusters ce)\<rparr>)))"

definition GetCluster :: "ClusterEngine \<Rightarrow> string \<Rightarrow> Cluster option" where
  "GetCluster ce clusterID = map_of (Clusters ce) clusterID"

text \<open>\<^verbatim>\<open>UpdateClusterConfidence\<close> has no result: it returns the engine it leaves.\<close>

definition UpdateClusterConfidence :: "string \<Rightarrow> ClusterEngine \<Rightarrow> ClusterEngine" where
  "UpdateClusterConfidence clusterID ce =
     (case map_of (Clusters ce) clusterID of
        None \<Rightarrow> ce
      | Some cluster \<Rightarrow>
          (let domainCount = length (Domains cluster);
               signalCount = length (SharedSignals cluster);
               resourceCount = length (SharedResources cluster);
               confidence = fmul (float64 domainCount) (c64 0.3);
               confidence = fadd confidence (fmul (float64 signalCount) (c64 0.2));
               confidence = fadd confidence (fmul (float64 resourceCount) (c64 0.3));
               confidence = (if fgt confidence (Fin 1) then Fin 1 else confidence)
           in ce\<lparr>Clusters :=
                   AList.update clusterID (cluster\<lparr>Cluster_Confidence := confidence\<rparr>)
                     (Clusters ce)\<rparr>))"

datatype cluster_error = ClustersDoNotExist

text \<open>The two merging loops of \<^verbatim>\<open>MergeClusters\<close>: an element is appended unless it is found.\<close>

definition appendMissing :: "string list \<Rightarrow> string list \<Rightarrow> string list" where
  "appendMissing existing new =
     foldl (\<lambda>acc x. if matchesAny x acc then acc else acc @ [x]) existing new"

definition MergeClusters ::
  "string \<Rightarrow> string \<Rightarrow> ClusterEngine \<Rightarrow> cluster_error option \<times> ClusterEngine" where
  "MergeClusters clusterID1 clusterID2 ce =
     (case (map_of (Clusters ce) clusterID1, map_of (Clusters ce) clusterID2) of
        (Some cluster1, Some cluster2) \<Rightarrow>
          (let merged = cluster1
                 \<lparr>Domains := appendMissing (Domains cluster1) (Domains cluster2),
                  SharedSignals := appendMissing (SharedSignals cluster1) (SharedSignals cluster2),
                  SharedResources :=
                    foldl (\<lambda>resources (resType, resValue). AList.update resType resValue resources)
                      (SharedResources cluster1) (SharedResources cluster2),
                  Cluster_Confidence :=
                    fdiv (fadd (Cluster_Confidence cluster1) (Cluster_Confidence cluster2)) (Fin 2),
                  Cluster_LastSeen :=
                    (if Cluster_LastSeen cluster1 < Cluster_LastSeen cluster2
                     then Cluster_LastSeen cluster2 else Cluster_LastSeen cluster1)\<rparr>
           in (None,
               ce\<lparr>Clusters := AList.delete clusterID2
                                 (AList.update clusterID1 merged (Clusters ce))\<rparr>))
      | _ \<Rightarrow> (Some ClustersDoNotExist, ce))"

section \<open>The monitor (internal/analyzer/monitor.go)\<close>

text \<open>
  The registry of the monitor and the state of one monitored domain. The mutex, the exporter
  and the stop channel are left out: the operations below are the bodies that run under the
  lock, and \<open>tick\<close> is the branch of \<^verbatim>\<open>runMonitor\<close> that a firing of the ticker runs.
\<close>

record ChangeRecord =
  Change_Timestamp :: time
  OldScore :: f64
  NewScore :: f64
  Reason :: string
  Change_Signals :: "Signal list"

record DomainMonitor =
  Monitor_Domain :: string
  LastResult :: "AnalysisResult option"
  Changes :: "ChangeRecord list"
  Interval :: nat
  Active :: bool

record Monitor =
  domains :: "(string \<times> DomainMonitor) list"

datatype monitor_error = AlreadyMonitored string | NotMonitored string

definition NewMonitor :: Monitor where
  "NewMonitor = \<lparr>domains = []\<rparr>"

text \<open>
  \<^verbatim>\<open>AddDomain\<close>; \<open>analyze\<close> is the initial scan \<^verbatim>\<open>AnalyzeDomain\<close>, a function of the domain, which a
  domain that is monitored already does not reach.
\<close>

definition AddDomain ::
  "string \<Rightarrow> nat \<Rightarrow> (string \<Rightarrow> AnalysisResult) \<Rightarrow> Monitor
     \<Rightarrow> monitor_error option \<times> Monitor" where
  "AddDomain domain interval analyze m =
     (case map_of (domains m) domain of
        Some existing \<Rightarrow> (Some (AlreadyMonitored domain), m)
      | None \<Rightarrow>
          (let monitor = \<lparr>Monitor_Domain = domain, LastResult = None, Changes = [],
                           Interval = interval, Active = True\<rparr>;
               m = m\<lparr>domains := AList.update domain monitor (domains m)\<rparr>;
               result = analyze domain;
               monitor = monitor\<lparr>LastResult := Some result\<rparr>
           in (None, m\<lparr>domains := AList.update domain monitor (domains m)\<rparr>)))"

definition RemoveDomain :: "string \<Rightarrow> Monitor \<Rightarrow> monitor_error option \<times> Monitor" where
  "RemoveDomain domain m =
     (case map_of (domains m) domain of
        None \<Rightarrow> (Some (NotMonitored domain), m)
      | Some monitor \<Rightarrow> (None, m\<lparr>domains := AList.delete domain (domains m)\<rparr>))"

definition PauseMonitoring :: "string \<Rightarrow> Monitor \<Rightarrow> monitor_error option \<times> Monitor" where
  "PauseMonitoring domain m =
     (case map_of (domains m) domain of
        None \<Rightarrow> (Some (NotMonitored domain), m)
      | Some monitor \<Rightarrow>
          (None, m\<lparr>domains := AList.update domain (monitor\<lparr>Active := False\<rparr>) (domains m)\<rparr>))"

definition ResumeMonitoring :: "string \<Rightarrow> Monitor \<Rightarrow> monitor_error option \<times> Monitor" where
  "ResumeMonitoring domain m =
     (case map_of (domains m) domain of
        None \<Rightarrow> (Some (NotMonitored domain), m)
      | Some monitor \<Rightarrow>
          (None, m\<lparr>domains := AList.update domain (monitor\<lparr>Active := True\<rparr>) (domains m)\<rparr>))"

definition GetChanges :: "string \<Rightarrow> Monitor \<Rightarrow> monitor_error + ChangeRecord list" where
  "GetChanges domain m =
     (case map_of (domains m) domain of
        None \<Rightarrow> Inl (NotMonitored domain)
      | Some monitor \<Rightarrow> Inr (Changes monitor))"

definition GetDomainStatus :: "string \<Rightarrow> Monitor \<Rightarrow> monitor_error + DomainMonitor" where
  "GetDomainStatus domain m =
     (case map_of (domains m) domain of
        None \<Rightarrow> Inl (NotMonitored domain)
      | Some monitor \<Rightarrow> Inr monitor)"

text \<open>
  \<^verbatim>\<open>detectChanges\<close>: the new signals whose id the old result does not have, then the signal of
  a score change.
\<close>

definition detectChanges :: "golib \<Rightarrow> AnalysisResult \<Rightarrow> AnalysisResult \<Rightarrow> Signal list" where
  "detectChanges L oldResult newResult =
     (let oldSignals = foldl (\<lambda>old signal. AList.update (SignalID signal) signal old) []
                         (signalsOf oldResult);
          changes = filter (\<lambda>newSignal. map_of oldSignals (SignalID newSignal) = None)
                      (signalsOf newResult);
          scoreDiff = fsub (Result_JLIScore newResult) (Result_JLIScore oldResult)
      in if fgt scoreDiff (c64 0.1) \<or> flt scoreDiff (fneg (c64 0.1))
         then changes @
                [\<lparr>SignalID = ''jli_score_change'', Category = ''MONITOR'',
                  Description = SprintfScoreChange L (Result_JLIScore oldResult)
                                  (Result_JLIScore newResult),
                  Confidence = Fin 1, Evidence = []\<rparr>]
         else changes)"

datatype tick_outcome = Returned | Looping

text \<open>
  One firing of the ticker in \<^verbatim>\<open>runMonitor\<close>. \<open>analyze\<close> is the scan \<^verbatim>\<open>AnalyzeDomain\<close> of this
  firing, a function of the domain; a monitor that is not active returns before the scan.
  \<open>Returned\<close>: the goroutine leaves the loop.
\<close>

definition tick ::
  "golib \<Rightarrow> time \<Rightarrow> (string \<Rightarrow> AnalysisResult) \<Rightarrow> DomainMonitor
     \<Rightarrow> tick_outcome \<times> DomainMonitor" where
  "tick L now analyze monitor =
     (if \<not> Active monitor then (Returned, monitor)
      else
        (let result = analyze (Monitor_Domain monitor);
             monitor =
               (case LastResult monitor of
                  None \<Rightarrow> monitor
                | Some lastResult \<Rightarrow>
                    (let changes = detectChanges L lastResult result
                     in if 0 < length changes
                        then monitor\<lparr>Changes := Changes monitor @
                               [\<lparr>Change_Timestamp = now,
                                 OldScore = Result_JLIScore lastResult,
                                 NewScore = Result_JLIScore result,
                                 Reason = itoa (length changes) @ '' changes detected'',
                                 Change_Signals = changes\<rparr>]\<rparr>
                        else monitor))
         in (Looping, monitor\<lparr>LastResult := Some result\<rparr>)))"

section \<open>Notions used in the statements and proofs\<close>

text \<open>The confidences of the signals of category \<open>c\<close>, in the order of the list.\<close>

definition confidencesOf :: "string \<Rightarrow> Signal list \<Rightarrow> f64 list" where
  "confidencesOf c signals = map Confidence (filter (\<lambda>s. Category s = c) signals)"

text \<open>
  What the loop of the aggregator does to the entry of one category: \<open>cur\<close> is the entry
  before the loop (\<open>None\<close> for a missing key), the list holds the confidences that arrive.
\<close>

fun stepper :: "f64 option \<Rightarrow> f64 list \<Rightarrow> f64 option" where
  "stepper cur [] = cur"
| "stepper cur (x # xs) =
     stepper (if fgt x (case cur of None \<Rightarrow> Fin 0 | Some v \<Rightarrow> v) then Some x else cur) xs"

text \<open>A signal literal that leaves the evidence out.\<close>

definition sig :: "string \<Rightarrow> string \<Rightarrow> string \<Rightarrow> f64 \<Rightarrow> Signal" where
  "sig i c d x = \<lparr>SignalID = i, Category = c, Description = d, Confidence = x, Evidence = []\<rparr>"

text \<open>The category and the confidence of a signal.\<close>

definition catconf :: "Signal \<Rightarrow> string \<times> f64" where
  "catconf s = (Category s, Confidence s)"

text \<open>The absolute value of a float.\<close>

fun fabs :: "f64 \<Rightarrow> f64" where
  "fabs (Fin a) = Fin \<bar>a\<bar>"
| "fabs PInf = PInf"
| "fabs NInf = PInf"
| "fabs NaN = NaN"

text \<open>
  A profile as \<^verbatim>\<open>validateProfile\<close> wants it: the five weights, added in float64 in the order of
  the source, give 1.0; the medium threshold is not above the high one; both lie between 0
  and 1.
\<close>

definition valid_profile :: "Config \<Rightarrow> bool" where
  "valid_profile p =
     (totalWeight (Scoring p) = Fin 1
      \<and> fge (High (Threshold p)) (Medium (Threshold p))
      \<and> fge (Medium (Threshold p)) (Fin 0) \<and> fge (Fin 1) (High (Threshold p)))"

text \<open>The cluster a domain joins: the domain appended, the clock read, the resources merged.\<close>

definition joined :: "golib \<Rightarrow> time \<Rightarrow> string \<Rightarrow> AnalysisResult \<Rightarrow> Cluster \<Rightarrow> Cluster" where
  "joined L now domain analysis cluster =
     updateSharedResources L
       (cluster\<lparr>Domains := Domains cluster @ [domain], Cluster_LastSeen := now\<rparr>) analysis"

text \<open>The cluster a domain founds.\<close>

definition founded :: "golib \<Rightarrow> time \<Rightarrow> string \<Rightarrow> AnalysisResult \<Rightarrow> Cluster" where
  "founded L now domain analysis =
     \<lparr>ID = generateClusterID L domain analysis, Cluster_Confidence = Fin 1, Domains = [domain],
      SharedSignals = extractSharedSignals analysis,
      Cluster_FirstSeen = now, Cluster_LastSeen = now,
      SharedResources = extractSharedResources L analysis\<rparr>"

text \<open>An analysis result that carries the given signals and score.\<close>

definition analysisOf :: "string \<Rightarrow> f64 \<Rightarrow> Signal list \<Rightarrow> AnalysisResult" where
  "analysisOf domain score signals =
     \<lparr>Result_Domain = \<lparr>Domain = domain, FirstSeen = 0, LastSeen = 0, CDNProvider = '''',
                        JLIScore = score, JLILevel = '''', ClusterID = None, Signals = signals\<rparr>,
      Result_JLIScore = score, Result_JLILevel = '''', Result_CategoryBreakdown = [],
      ProfileUsed = ''standard''\<rparr>"

section \<open>Inputs of the examples\<close>

text \<open>
  Two profiles that \<^verbatim>\<open>validateProfile\<close> accepts: one gives three categories the weight 0, the
  other has a negative weight.
\<close>

definition half_half_profile :: Config where
  "half_half_profile =
     \<lparr>Scoring = \<lparr>GamblingUI = c64 0.5, PaymentSignal = c64 0.5, InfraCorrelation = Fin 0,
                 DomainChurn = Fin 0, CDNPattern = Fin 0\<rparr>,
      Threshold = \<lparr>High = c64 0.75, Medium = c64 0.50\<rparr>\<rparr>"

definition negative_weight_profile :: Config where
  "negative_weight_profile =
     \<lparr>Scoring = \<lparr>GamblingUI = Fin (- 2), PaymentSignal = Fin 3, InfraCorrelation = Fin 0,
                 DomainChurn = Fin 0, CDNPattern = Fin 0\<rparr>,
      Threshold = \<lparr>High = c64 0.75, Medium = c64 0.50\<rparr>\<rparr>"

text \<open>A profile whose weights are 1 and \<open>10\<^sup>-\<^sup>1\<^sup>7\<close>: their float64 sum is 1.0.\<close>

definition absorbed_weight_profile :: Config where
  "absorbed_weight_profile =
     \<lparr>Scoring = \<lparr>GamblingUI = Fin 1, PaymentSignal = c64 (1 / 10 ^ 17), InfraCorrelation = Fin 0,
                 DomainChurn = Fin 0, CDNPattern = Fin 0\<rparr>,
      Threshold = \<lparr>High = c64 0.75, Medium = c64 0.50\<rparr>\<rparr>"

text \<open>A profile whose five weights are all 0.3.\<close>

definition all_03_profile :: Config where
  "all_03_profile =
     \<lparr>Scoring = \<lparr>GamblingUI = c64 0.3, PaymentSignal = c64 0.3, InfraCorrelation = c64 0.3,
                 DomainChurn = c64 0.3, CDNPattern = c64 0.3\<rparr>,
      Threshold = \<lparr>High = c64 0.75, Medium = c64 0.50\<rparr>\<rparr>"

text \<open>The built-in profile \<^verbatim>\<open>intensive\<close> of \<^verbatim>\<open>GetProfile\<close> (manager.go).\<close>

definition intensive_profile :: Config where
  "intensive_profile =
     \<lparr>Scoring = \<lparr>GamblingUI = c64 0.35, PaymentSignal = c64 0.30, InfraCorrelation = c64 0.20,
                 DomainChurn = c64 0.10, CDNPattern = c64 0.05\<rparr>,
      Threshold = \<lparr>High = c64 0.60, Medium = c64 0.30\<rparr>\<rparr>"

text \<open>
  The library on the strings of the examples. \<open>md5hex\<close> is the table of the MD5 digests of the
  strings the examples hash; \<open>ParseIP\<close> accepts the two addresses of the examples, and no
  other field of their descriptions is an address; \<open>Fields\<close> and \<open>TrimSpace\<close> treat the space as
  the only white space, which it is in the examples.
\<close>

definition example_md5 :: "string \<Rightarrow> string" where
  "example_md5 data =
     (if data = ''a.exampleorigin_ip_detected'' then ''864aa0942b7b8a21638d03eb840a5130''
      else if data = ''b.exampleorigin_ip_detectedcrypto_wallet''
        then ''87c411bab6aa5d1f43053c58efb4b577''
      else if data = ''b.exampleorigin_ip_detectedorigin_ip_detected''
        then ''0dd4f8cde4a0fcad9defe93263056266''
      else ''d41d8cd98f00b204e9800998ecf8427e'')"

definition example_trim :: "string \<Rightarrow> string" where
  "example_trim s =
     rev (dropWhile (\<lambda>c. c = CHR '' '') (rev (dropWhile (\<lambda>c. c = CHR '' '') s)))"

definition lib0 :: golib where
  "lib0 =
     \<lparr>md5hex = example_md5,
      ParseIP = (\<lambda>s. s = ''203.0.113.7'' \<or> s = ''203.0.113.9''),
      Fields = (\<lambda>s. filter (\<lambda>w. w \<noteq> []) (Split s)),
      TrimSpace = example_trim,
      SprintfScoreChange = (\<lambda>old new. ''JLI score changed'')\<rparr>"

text \<open>
  The signal the scanner emits for an origin address, the same signal for another address, and
  a payment signal with a wallet.
\<close>

definition origin_signal :: Signal where
  "origin_signal =
     sig ''origin_ip_detected'' ''INFRA''
       ''Potential origin IP detected behind CDN: 203.0.113.7'' (c64 0.8)"

definition moved_origin_signal :: Signal where
  "moved_origin_signal =
     sig ''origin_ip_detected'' ''INFRA''
       ''Potential origin IP detected behind CDN: 203.0.113.9'' (c64 0.8)"

definition wallet_signal :: Signal where
  "wallet_signal =
     sig ''crypto_wallet'' ''PAYMENT''
       ''Found cryptocurrency address: bc1qar0srrr7xfkvy5l643lydnw9re59gtzzwf5mdq'' (c64 0.9)"

text \<open>A cluster with one domain, one signal id and two resources, and an engine that holds it.\<close>

definition example_cluster :: Cluster where
  "example_cluster =
     \<lparr>ID = ''864aa0942b7b'', Cluster_Confidence = Fin 1, Domains = [''a.example''],
      SharedSignals = [''origin_ip_detected''], Cluster_FirstSeen = 1, Cluster_LastSeen = 1,
      SharedResources = [(''ip'', ''203.0.113.7''),
                         (''wallet'', ''bc1qar0srrr7xfkvy5l643lydnw9re59gtzzwf5mdq'')]\<rparr>"

definition example_engine :: ClusterEngine where
  "example_engine = \<lparr>Clusters = [(''864aa0942b7b'', example_cluster)]\<rparr>"

text \<open>
  Three analyses with the same origin signal: the first has nothing else, the second a wallet
  besides, the third the origin signal of another address besides.
\<close>

definition analysis_a :: AnalysisResult where
  "analysis_a = analysisOf ''a.example'' (c64 0.6) [origin_signal]"

definition analysis_b :: AnalysisResult where
  "analysis_b = analysisOf ''b.example'' (c64 0.7) [origin_signal, wallet_signal]"

definition analysis_c :: AnalysisResult where
  "analysis_c = analysisOf ''b.example'' (c64 0.7) [origin_signal, moved_origin_signal]"

text \<open>
  The engine after \<open>a.example\<close>, after \<open>a.example\<close> twice, after \<open>a.example\<close> and \<open>b.example\<close>
  with its wallet, and after \<open>a.example\<close> and \<open>b.example\<close> with its second address.
\<close>

definition first_engine :: ClusterEngine where
  "first_engine =
     \<lparr>Clusters = [(''864aa0942b7b'',
        \<lparr>ID = ''864aa0942b7b'', Cluster_Confidence = Fin 1, Domains = [''a.example''],
         SharedSignals = [''origin_ip_detected''], Cluster_FirstSeen = 100, Cluster_LastSeen = 100,
         SharedResources = [(''ip'', ''203.0.113.7'')]\<rparr>)]\<rparr>"

definition twice_engine :: ClusterEngine where
  "twice_engine =
     \<lparr>Clusters = [(''864aa0942b7b'',
        \<lparr>ID = ''864aa0942b7b'', Cluster_Confidence = Fin 1,
         Domains = [''a.example'', ''a.example''],
         SharedSignals = [''origin_ip_detected''], Cluster_FirstSeen = 100, Cluster_LastSeen = 200,
         SharedResources = [(''ip'', ''203.0.113.7'')]\<rparr>)]\<rparr>"

definition second_engine :: ClusterEngine where
  "second_engine =
     \<lparr>Clusters = [(''864aa0942b7b'',
        \<lparr>ID = ''864aa0942b7b'', Cluster_Confidence = Fin 1, Domains = [''a.example''],
         SharedSignals = [''origin_ip_detected''], Cluster_FirstSeen = 100, Cluster_LastSeen = 100,
         SharedResources = [(''ip'', ''203.0.113.7'')]\<rparr>),
       (''87c411bab6aa'',
        \<lparr>ID = ''87c411bab6aa'', Cluster_Confidence = Fin 1, Domains = [''b.example''],
         SharedSignals = [''origin_ip_detected'', ''crypto_wallet''],
         Cluster_FirstSeen = 200, Cluster_LastSeen = 200,
         SharedResources = [(''ip'', ''203.0.113.7''),
                            (''wallet'', ''bc1qar0srrr7xfkvy5l643lydnw9re59gtzzwf5mdq'')]\<rparr>)]\<rparr>"

definition split_engine :: ClusterEngine where
  "split_engine =
     \<lparr>Clusters = [(''864aa0942b7b'',
        \<lparr>ID = ''864aa0942b7b'', Cluster_Confidence = Fin 1, Domains = [''a.example''],
         SharedSignals = [''origin_ip_detected''], Cluster_FirstSeen = 100, Cluster_LastSeen = 100,
         SharedResources = [(''ip'', ''203.0.113.7'')]\<rparr>),
       (''0dd4f8cde4a0'',
        \<lparr>ID = ''0dd4f8cde4a0'', Cluster_Confidence = Fin 1, Domains = [''b.example''],
         SharedSignals = [''origin_ip_detected'', ''origin_ip_detected''],
         Cluster_FirstSeen = 200, Cluster_LastSeen = 200,
         SharedResources = [(''ip'', ''203.0.113.9'')]\<rparr>)]\<rparr>"

text \<open>
  The analysis of \<open>a.example\<close> after its origin address has moved, the engine after \<open>a.example\<close>
  and \<open>c.example\<close> with the same analysis, and the engine that is left when \<open>a.example\<close> is
  then added with the new analysis.
\<close>

definition analysis_m :: AnalysisResult where
  "analysis_m = analysisOf ''a.example'' (c64 0.6) [moved_origin_signal]"

definition pair_engine :: ClusterEngine where
  "pair_engine =
     \<lparr>Clusters = [(''864aa0942b7b'',
        \<lparr>ID = ''864aa0942b7b'', Cluster_Confidence = Fin 1,
         Domains = [''a.example'', ''c.example''],
         SharedSignals = [''origin_ip_detected''], Cluster_FirstSeen = 100, Cluster_LastSeen = 200,
         SharedResources = [(''ip'', ''203.0.113.7'')]\<rparr>)]\<rparr>"

definition replaced_engine :: ClusterEngine where
  "replaced_engine =
     \<lparr>Clusters = [(''864aa0942b7b'',
        \<lparr>ID = ''864aa0942b7b'', Cluster_Confidence = Fin 1, Domains = [''a.example''],
         SharedSignals = [''origin_ip_detected''], Cluster_FirstSeen = 300, Cluster_LastSeen = 300,
         SharedResources = [(''ip'', ''203.0.113.9'')]\<rparr>)]\<rparr>"

text \<open>The engine after \<open>a.example\<close> twice and \<open>b.example\<close> with its wallet once.\<close>

definition three_adds_engine :: ClusterEngine where
  "three_adds_engine = \<lparr>Clusters = Clusters twice_engine @ tl (Clusters second_engine)\<rparr>"

text \<open>
  A monitor of \<open>a.example\<close> whose last result has the score 0.7, and two scans of the same
  signals, with the scores 0.8 and 0.6.
\<close>

definition example_monitor :: DomainMonitor where
  "example_monitor =
     \<lparr>Monitor_Domain = ''a.example'',
      LastResult = Some (analysisOf ''a.example'' (c64 0.7) [origin_signal]),
      Changes = [], Interval = 60, Active = True\<rparr>"

definition example_scan :: "string \<Rightarrow> AnalysisResult" where
  "example_scan domain = analysisOf domain (c64 0.8) [origin_signal]"

definition lower_scan :: "string \<Rightarrow> AnalysisResult" where
  "lower_scan domain = analysisOf domain (c64 0.6) [origin_signal]"

section \<open>Properties of float64\<close>

lemma fgt_irrefl [simp]: "\<not> fgt x x"
  by (cases x) (simp_all add: fgt_def)

lemma fgt_trans: "fgt a b \<Longrightarrow> fgt b c \<Longrightarrow> fgt a c"
  by (cases a; cases b; cases c) (simp_all add: fgt_def)

lemma fgt_asym: "fgt a b \<Longrightarrow> \<not> fgt b a"
  by (cases a; cases b) (simp_all add: fgt_def)

lemma fgt_not_NaN: "fgt a b \<Longrightarrow> a \<noteq> NaN \<and> b \<noteq> NaN"
  by (cases a; cases b) (simp_all add: fgt_def)

lemma f64_trichotomy: "a \<noteq> NaN \<Longrightarrow> b \<noteq> NaN \<Longrightarrow> fgt a b \<or> a = b \<or> fgt b a"
  by (cases a; cases b) (auto simp: fgt_def)

section \<open>Rounding\<close>

lemma pow2_powr: "pow2 e = 2 powr (of_int e)"
  by (auto simp: pow2_def powr_real_of_int' powr_minus divide_inverse
      simp flip: powr_realpow)

lemma pow2_pos [simp]: "0 < pow2 e"
  by (simp add: pow2_powr)

lemma pow2_nonneg [simp]: "0 \<le> pow2 e"
  using pow2_pos [of e] by linarith

lemma pow2_add: "pow2 (a + b) = pow2 a * pow2 b"
  by (simp add: pow2_powr powr_add)

lemma pow2_mono: "a \<le> b \<Longrightarrow> pow2 a \<le> pow2 b"
  by (simp add: pow2_powr)

lemma floor_log2_eq:
  assumes "pow2 k \<le> \<bar>x\<bar>" "\<bar>x\<bar> < pow2 (k + 1)"
  shows "\<lfloor>log 2 \<bar>x\<bar>\<rfloor> = k"
proof -
  have "0 < \<bar>x\<bar>" using assms(1) pow2_pos [of k] by linarith
  then show ?thesis
    using assms by (simp add: floor_log_eq_powr_iff pow2_powr)
qed

lemma floor_log2_bounds:
  assumes "x \<noteq> 0"
  shows "pow2 \<lfloor>log 2 \<bar>x\<bar>\<rfloor> \<le> \<bar>x\<bar>" "\<bar>x\<bar> < pow2 (\<lfloor>log 2 \<bar>x\<bar>\<rfloor> + 1)"
proof -
  have "0 < \<bar>x\<bar>" using assms by simp
  then have "2 powr (of_int \<lfloor>log 2 \<bar>x\<bar>\<rfloor>) \<le> \<bar>x\<bar> \<and> \<bar>x\<bar> < 2 powr (of_int (\<lfloor>log 2 \<bar>x\<bar>\<rfloor> + 1))"
    using floor_log_eq_powr_iff [of "\<bar>x\<bar>" 2 "\<lfloor>log 2 \<bar>x\<bar>\<rfloor>"] by simp
  then show "pow2 \<lfloor>log 2 \<bar>x\<bar>\<rfloor> \<le> \<bar>x\<bar>" "\<bar>x\<bar> < pow2 (\<lfloor>log 2 \<bar>x\<bar>\<rfloor> + 1)"
    by (simp_all add: pow2_powr)
qed

lemma round64_at:
  assumes "pow2 k \<le> \<bar>x\<bar>" "\<bar>x\<bar> < pow2 (k + 1)" "- 1022 \<le> k"
  shows "round64 x =
     (let y = of_int (rne (x / pow2 (k - 52))) * pow2 (k - 52)
      in if huge \<le> \<bar>y\<bar> then (if 0 < x then PInf else NInf) else Fin y)"
proof -
  have "0 < \<bar>x\<bar>" using assms(1) pow2_pos [of k] by linarith
  then have "x \<noteq> 0" by simp
  moreover have "expo64 x = k - 52"
    using floor_log2_eq [OF assms(1,2)] assms(3) by (simp add: expo64_def)
  ultimately show ?thesis by (simp add: round64_def Let_def)
qed

lemma round64_zero [simp]: "round64 0 = Fin 0"
  by (simp add: round64_def)

lemma rne_close: "\<bar>of_int (rne r) - r\<bar> \<le> 1 / 2"
  unfolding rne_def Let_def by (auto; linarith)

lemma rne_nonneg: "0 \<le> r \<Longrightarrow> 0 \<le> rne r"
  unfolding rne_def Let_def by (auto; linarith)

lemma round64_close:
  assumes "\<bar>x\<bar> \<le> 2 ^ 1023"
  shows "\<exists>y. round64 x = Fin y \<and> \<bar>y - x\<bar> \<le> \<bar>x\<bar> / 2 ^ 53 + 1 / 2 ^ 1075 \<and> (0 \<le> x \<longrightarrow> 0 \<le> y)"
proof (cases "x = 0")
  case True
  then show ?thesis by simp
next
  case False
  define e where "e = expo64 x"
  define p where "p = pow2 e"
  define y where "y = of_int (rne (x / p)) * p"
  have p0: "0 < p" by (simp add: p_def)
  have "y - x = (of_int (rne (x / p)) - x / p) * p"
    using p0 by (simp add: y_def left_diff_distrib)
  then have "\<bar>y - x\<bar> = \<bar>of_int (rne (x / p)) - x / p\<bar> * p"
    using p0 by (simp add: abs_mult)
  also have "\<dots> \<le> 1 / 2 * p"
    using rne_close [of "x / p"] p0 by (intro mult_right_mono) simp_all
  finally have d: "\<bar>y - x\<bar> \<le> p / 2" by simp
  have pb: "p / 2 \<le> \<bar>x\<bar> / 2 ^ 53 + 1 / 2 ^ 1075"
  proof (cases "- 1074 \<le> \<lfloor>log 2 \<bar>x\<bar>\<rfloor> - 52")
    case True
    then have "e = \<lfloor>log 2 \<bar>x\<bar>\<rfloor> - 52" by (simp add: e_def expo64_def)
    then have "p = pow2 \<lfloor>log 2 \<bar>x\<bar>\<rfloor> * pow2 (- 52)"
      by (simp add: p_def pow2_add [symmetric])
    also have "\<dots> \<le> \<bar>x\<bar> * pow2 (- 52)"
      using floor_log2_bounds(1) [OF False] by (intro mult_right_mono) simp_all
    finally have "p \<le> \<bar>x\<bar> / 2 ^ 52" by (simp add: pow2_def)
    then show ?thesis by simp
  next
    case False
    then have "e = - 1074" by (simp add: e_def expo64_def)
    then have "p = 1 / 2 ^ 1074" by (simp add: p_def pow2_def)
    then show ?thesis by simp
  qed
  have close: "\<bar>y - x\<bar> \<le> \<bar>x\<bar> / 2 ^ 53 + 1 / 2 ^ 1075" using d pb by linarith
  have "\<bar>y\<bar> \<le> \<bar>x\<bar> + (\<bar>x\<bar> / 2 ^ 53 + 1 / 2 ^ 1075)" using close by linarith
  also have "\<dots> \<le> 2 ^ 1023 + (2 ^ 1023 / 2 ^ 53 + 1 / 2 ^ 1075)"
    using assms by (intro add_mono divide_right_mono) simp_all
  also have "\<dots> < (2 ^ 1024 :: real)" by simp
  finally have small: "\<not> huge \<le> \<bar>y\<bar>" by (simp add: huge_def)
  have r: "round64 x = Fin y"
    using \<open>x \<noteq> 0\<close> small by (simp add: round64_def Let_def e_def [symmetric] p_def [symmetric] y_def)
  have "0 \<le> x \<longrightarrow> 0 \<le> y"
    using rne_nonneg [of "x / p"] p0 by (simp add: y_def)
  then show ?thesis using r close by blast
qed

lemma round64_range:
  assumes "0 \<le> x" "x \<le> 2 ^ 1000"
  shows "\<exists>y. round64 x = Fin y \<and> 0 \<le> y \<and> x - x / 2 ^ 53 - 1 / 2 ^ 1075 \<le> y
           \<and> y \<le> x + x / 2 ^ 53 + 1 / 2 ^ 1075"
proof -
  have "(2::real) ^ 1000 \<le> 2 ^ 1023" by simp
  then have "\<bar>x\<bar> \<le> 2 ^ 1023" using assms by linarith
  then obtain y where y: "round64 x = Fin y" "\<bar>y - x\<bar> \<le> \<bar>x\<bar> / 2 ^ 53 + 1 / 2 ^ 1075"
      "0 \<le> x \<longrightarrow> 0 \<le> y"
    using round64_close [of x] by blast
  have "\<bar>x\<bar> = x" using assms(1) by simp
  then have "\<bar>y - x\<bar> \<le> x / 2 ^ 53 + 1 / 2 ^ 1075" using y(2) by simp
  then have "x - x / 2 ^ 53 - 1 / 2 ^ 1075 \<le> y \<and> y \<le> x + x / 2 ^ 53 + 1 / 2 ^ 1075"
    by linarith
  then show ?thesis using y(1,3) assms(1) by blast
qed

text \<open>A length of Go is an \<^verbatim>\<open>int\<close>, below \<open>2\<^sup>6\<^sup>3\<close>: its conversion is finite.\<close>

lemma float64_range:
  assumes "n < 2 ^ 63"
  shows "\<exists>y. float64 n = Fin y \<and> 0 \<le> y \<and> y \<le> 2 ^ 64 \<and> (0 < n \<longrightarrow> 1 / 2 \<le> y)"
proof -
  have le: "real n \<le> 2 ^ 63"
  proof -
    have "real n \<le> real (2 ^ 63)" using assms by (intro of_nat_mono) simp
    then show ?thesis by simp
  qed
  have "(2::real) ^ 63 \<le> 2 ^ 1000" by simp
  then have "real n \<le> 2 ^ 1000" using le by linarith
  then obtain y where y: "round64 (real n) = Fin y" "0 \<le> y"
      "real n - real n / 2 ^ 53 - 1 / 2 ^ 1075 \<le> y"
      "y \<le> real n + real n / 2 ^ 53 + 1 / 2 ^ 1075"
    using round64_range [of "real n"] by auto
  have up: "y \<le> 2 ^ 64" using y(4) le by simp
  have "0 < n \<longrightarrow> 1 / 2 \<le> y"
  proof
    assume "0 < n"
    then have "1 \<le> real n" by simp
    then show "1 / 2 \<le> y" using y(3) by simp
  qed
  then show ?thesis using y(1,2) up by (simp add: float64_def)
qed

section \<open>The roundings of the examples\<close>

text \<open>
  Each lemma evaluates \<open>round64\<close> at one argument of the examples: the exponent of the
  argument is given, the mantissa is computed.
\<close>

lemma r64_4_5: "round64 (4 / 5) = Fin (3602879701896397 / 4503599627370496)"
  by (subst round64_at [where k = "- 1"]) (simp_all add: pow2_def rne_def Let_def huge_def)

lemma r64_9_10: "round64 (9 / 10) = Fin (8106479329266893 / 9007199254740992)"
  by (subst round64_at [where k = "- 1"]) (simp_all add: pow2_def rne_def Let_def huge_def)

lemma r64_3_5: "round64 (3 / 5) = Fin (5404319552844595 / 9007199254740992)"
  by (subst round64_at [where k = "- 1"]) (simp_all add: pow2_def rne_def Let_def huge_def)

lemma r64_2_5: "round64 (2 / 5) = Fin (3602879701896397 / 9007199254740992)"
  by (subst round64_at [where k = "- 2"]) (simp_all add: pow2_def rne_def Let_def huge_def)

lemma r64_3_10: "round64 (3 / 10) = Fin (5404319552844595 / 18014398509481984)"
  by (subst round64_at [where k = "- 2"]) (simp_all add: pow2_def rne_def Let_def huge_def)

lemma r64_1_4: "round64 (1 / 4) = Fin (1 / 4)"
  by (subst round64_at [where k = "- 2"]) (simp_all add: pow2_def rne_def Let_def huge_def)

lemma r64_1_5: "round64 (1 / 5) = Fin (3602879701896397 / 18014398509481984)"
  by (subst round64_at [where k = "- 3"]) (simp_all add: pow2_def rne_def Let_def huge_def)

lemma r64_3_20: "round64 (3 / 20) = Fin (5404319552844595 / 36028797018963968)"
  by (subst round64_at [where k = "- 3"]) (simp_all add: pow2_def rne_def Let_def huge_def)

lemma r64_1_10: "round64 (1 / 10) = Fin (3602879701896397 / 36028797018963968)"
  by (subst round64_at [where k = "- 4"]) (simp_all add: pow2_def rne_def Let_def huge_def)

lemma r64_v1: "round64 (19471113219505603967277331424215 / 81129638414606681695789005144064) = Fin (1080863910568919 / 4503599627370496)"
  by (subst round64_at [where k = "- 3"]) (simp_all add: pow2_def rne_def Let_def huge_def)

lemma r64_v2: "round64 (1080863910568919 / 4503599627370496) = Fin (1080863910568919 / 4503599627370496)"
  by (subst round64_at [where k = "- 3"]) (simp_all add: pow2_def rne_def Let_def huge_def)

lemma r64_v3: "round64 (8106479329266893 / 36028797018963968) = Fin (8106479329266893 / 36028797018963968)"
  by (subst round64_at [where k = "- 3"]) (simp_all add: pow2_def rne_def Let_def huge_def)

lemma r64_v4: "round64 (16753390613818245 / 36028797018963968) = Fin (4188347653454561 / 9007199254740992)"
  by (subst round64_at [where k = "- 2"]) (simp_all add: pow2_def rne_def Let_def huge_def)

lemma r64_v5: "round64 (19471113219505603967277331424215 / 162259276829213363391578010288128) = Fin (1080863910568919 / 9007199254740992)"
  by (subst round64_at [where k = "- 4"]) (simp_all add: pow2_def rne_def Let_def huge_def)

lemma r64_v6: "round64 (658651445502935 / 1125899906842624) = Fin (658651445502935 / 1125899906842624)"
  by (subst round64_at [where k = "- 1"]) (simp_all add: pow2_def rne_def Let_def huge_def)

lemma r64_v7: "round64 (19471113219505603967277331424215 / 324518553658426726783156020576256) = Fin (1080863910568919 / 18014398509481984)"
  by (subst round64_at [where k = "- 5"]) (simp_all add: pow2_def rne_def Let_def huge_def)

lemma r64_v8: "round64 (11619287038615879 / 18014398509481984) = Fin (1452410879826985 / 2251799813685248)"
  by (subst round64_at [where k = "- 1"]) (simp_all add: pow2_def rne_def Let_def huge_def)

lemma r64_v9: "round64 (19471113219505603967277331424215 / 649037107316853453566312041152512) = Fin (1080863910568919 / 36028797018963968)"
  by (subst round64_at [where k = "- 6"]) (simp_all add: pow2_def rne_def Let_def huge_def)

lemma r64_v10: "round64 (24319437987800679 / 36028797018963968) = Fin (3039929748475085 / 4503599627370496)"
  by (subst round64_at [where k = "- 1"]) (simp_all add: pow2_def rne_def Let_def huge_def)

lemma r64_v11: "round64 (3039929748475085 / 4503599627370496) = Fin (3039929748475085 / 4503599627370496)"
  by (subst round64_at [where k = "- 1"]) (simp_all add: pow2_def rne_def Let_def huge_def)

lemma r64_2: "round64 2 = Fin 2"
  by (subst round64_at [where k = "1"]) (simp_all add: pow2_def rne_def Let_def huge_def)

lemma r64_5: "round64 5 = Fin 5"
  by (subst round64_at [where k = "2"]) (simp_all add: pow2_def rne_def Let_def huge_def)

lemma r64_7_10: "round64 (7 / 10) = Fin (3152519739159347 / 4503599627370496)"
  by (subst round64_at [where k = "- 1"]) (simp_all add: pow2_def rne_def Let_def huge_def)

lemma r64_27_40: "round64 (27 / 40) = Fin (3039929748475085 / 4503599627370496)"
  by (subst round64_at [where k = "- 1"]) (simp_all add: pow2_def rne_def Let_def huge_def)

lemma r64_3_4: "round64 (3 / 4) = Fin (3 / 4)"
  by (subst round64_at [where k = "- 1"]) (simp_all add: pow2_def rne_def Let_def huge_def)

lemma r64_1_2: "round64 (1 / 2) = Fin (1 / 2)"
  by (subst round64_at [where k = "- 1"]) (simp_all add: pow2_def rne_def Let_def huge_def)

lemma r64_1: "round64 1 = Fin 1"
  by (subst round64_at [where k = "0"]) (simp_all add: pow2_def rne_def Let_def huge_def)

lemma r64_6_5: "round64 (6 / 5) = Fin (5404319552844595 / 4503599627370496)"
  by (subst round64_at [where k = "0"]) (simp_all add: pow2_def rne_def Let_def huge_def)

lemma r64_33_100: "round64 (33 / 100) = Fin (5944751508129055 / 18014398509481984)"
  by (subst round64_at [where k = "- 2"]) (simp_all add: pow2_def rne_def Let_def huge_def)

lemma r64_v12: "round64 (- 179769313486231590772930519078902473361797697894230657273430081157732675805500963132708477322407536021120113879871393357658789768814416622492847430639474124377767893424865485276302219601246094119453082952085005768838150682342462881473913110540827237163350510684586298239947245938479716304835356329624224137216) = NInf"
  by (subst round64_at [where k = "1024"]) (simp_all add: pow2_def rne_def Let_def huge_def)

lemma r64_v13: "round64 269653970229347386159395778618353710042696546841345985910145121736599013708251444699062715983611304031680170819807090036488184653221624933739271145959211186566651840137298227914453329401869141179179624428127508653257226023513694322210869665811240855745025766026879447359920868907719574457253034494436336205824 = PInf"
  by (subst round64_at [where k = "1024"]) (simp_all add: pow2_def rne_def Let_def huge_def)

lemma r64_v14: "round64 (5404319552844595 / 9007199254740992) = Fin (5404319552844595 / 9007199254740992)"
  by (subst round64_at [where k = "- 1"]) (simp_all add: pow2_def rne_def Let_def huge_def)

lemma r64_v15: "round64 (16212958658533785 / 18014398509481984) = Fin (2026619832316723 / 2251799813685248)"
  by (subst round64_at [where k = "- 1"]) (simp_all add: pow2_def rne_def Let_def huge_def)

lemma r64_v16: "round64 (21617278211378379 / 18014398509481984) = Fin (5404319552844595 / 4503599627370496)"
  by (subst round64_at [where k = "0"]) (simp_all add: pow2_def rne_def Let_def huge_def)

lemma r64_v17: "round64 (27021597764222975 / 18014398509481984) = Fin (3 / 2)"
  by (subst round64_at [where k = "0"]) (simp_all add: pow2_def rne_def Let_def huge_def)

lemma r64_v18: "round64 (9907919180215091 / 18014398509481984) = Fin (2476979795053773 / 4503599627370496)"
  by (subst round64_at [where k = "- 1"]) (simp_all add: pow2_def rne_def Let_def huge_def)

lemma r64_v19: "round64 (13510798882111489 / 18014398509481984) = Fin (3 / 4)"
  by (subst round64_at [where k = "- 1"]) (simp_all add: pow2_def rne_def Let_def huge_def)

lemma r64_v20: "round64 (32425917317067571 / 36028797018963968) = Fin (8106479329266893 / 9007199254740992)"
  by (subst round64_at [where k = "- 1"]) (simp_all add: pow2_def rne_def Let_def huge_def)

lemma r64_v21: "round64 (36028797018963969 / 36028797018963968) = Fin 1"
  by (subst round64_at [where k = "0"]) (simp_all add: pow2_def rne_def Let_def huge_def)

lemma r64_7_20: "round64 (7 / 20) = Fin (3152519739159347 / 9007199254740992)"
  by (subst round64_at [where k = "- 2"]) (simp_all add: pow2_def rne_def Let_def huge_def)

lemma r64_v22: "round64 (11709359031163289 / 18014398509481984) = Fin (1463669878895411 / 2251799813685248)"
  by (subst round64_at [where k = "- 1"]) (simp_all add: pow2_def rne_def Let_def huge_def)

lemma r64_v23: "round64 (15312238733059685 / 18014398509481984) = Fin (3828059683264921 / 4503599627370496)"
  by (subst round64_at [where k = "- 1"]) (simp_all add: pow2_def rne_def Let_def huge_def)

lemma r64_v24: "round64 (34227357168015765 / 36028797018963968) = Fin (8556839292003941 / 9007199254740992)"
  by (subst round64_at [where k = "- 1"]) (simp_all add: pow2_def rne_def Let_def huge_def)

lemma r64_1_20: "round64 (1 / 20) = Fin (3602879701896397 / 72057594037927936)"
  by (subst round64_at [where k = "- 5"]) (simp_all add: pow2_def rne_def Let_def huge_def)

lemma r64_v25: "round64 (72057594037927925 / 72057594037927936) = Fin (9007199254740991 / 9007199254740992)"
  by (subst round64_at [where k = "- 1"]) (simp_all add: pow2_def rne_def Let_def huge_def)

lemma r64_v26: "round64 (5404319552844595 / 18014398509481984) = Fin (5404319552844595 / 18014398509481984)"
  by (subst round64_at [where k = "- 2"]) (simp_all add: pow2_def rne_def Let_def huge_def)

lemma r64_v27: "round64 (3602879701896397 / 18014398509481984) = Fin (3602879701896397 / 18014398509481984)"
  by (subst round64_at [where k = "- 3"]) (simp_all add: pow2_def rne_def Let_def huge_def)

lemma r64_v28: "round64 (9907919180215091 / 9007199254740992) = Fin (2476979795053773 / 2251799813685248)"
  by (subst round64_at [where k = "0"]) (simp_all add: pow2_def rne_def Let_def huge_def)

lemma r64_v29: "round64 (14411518807585587 / 18014398509481984) = Fin (3602879701896397 / 4503599627370496)"
  by (subst round64_at [where k = "- 1"]) (simp_all add: pow2_def rne_def Let_def huge_def)

lemma r64_v30: "round64 (225179981368525 / 2251799813685248) = Fin (225179981368525 / 2251799813685248)"
  by (subst round64_at [where k = "- 4"]) (simp_all add: pow2_def rne_def Let_def huge_def)

lemma r64_v31: "round64 (900719925474099 / 9007199254740992) = Fin (900719925474099 / 9007199254740992)"
  by (subst round64_at [where k = "- 4"]) (simp_all add: pow2_def rne_def Let_def huge_def)

lemma r64_v32: "round64 (- (900719925474099 / 9007199254740992)) = Fin (- (900719925474099 / 9007199254740992))"
  by (subst round64_at [where k = "- 4"]) (simp_all add: pow2_def rne_def Let_def huge_def)

lemma r64_v33: "round64 (1 / 100000000000000000) = Fin (6490371073168535 / 649037107316853453566312041152512)"
  by (subst round64_at [where k = "- 57"]) (simp_all add: pow2_def rne_def Let_def huge_def)

lemma r64_v34: "round64 (649037107316853460056683114321047 / 649037107316853453566312041152512) = Fin 1"
  by (subst round64_at [where k = "0"]) (simp_all add: pow2_def rne_def Let_def huge_def)

lemmas roundings =
  r64_4_5 r64_9_10 r64_3_5 r64_2_5 r64_3_10 r64_1_4 r64_1_5 r64_3_20 r64_1_10 r64_v1 r64_v2
  r64_v3 r64_v4 r64_v5 r64_v6 r64_v7 r64_v8 r64_v9 r64_v10 r64_v11 r64_2 r64_5 r64_7_10
  r64_27_40 r64_3_4 r64_1_2 r64_1 r64_6_5 r64_33_100 r64_v12 r64_v13 r64_v14 r64_v15 r64_v16
  r64_v17 r64_v18 r64_v19 r64_v20 r64_v21 r64_7_20 r64_v22 r64_v23 r64_v24 r64_1_20 r64_v25
  r64_v26 r64_v27 r64_v28 r64_v29 r64_v30 r64_v31 r64_v32 r64_v33 r64_v34

section \<open>The category aggregator\<close>

lemma loop_stepper:
  "map_of (categoryScoresLoop m signals) c = stepper (map_of m c) (confidencesOf c signals)"
  by (induction signals arbitrary: m) (auto simp: confidencesOf_def Let_def update_conv')

lemma stepper_char:
  "stepper cur xs = Some v \<longleftrightarrow>
     (cur = Some v \<and> (\<forall>x\<in>set xs. \<not> fgt x v))
   \<or> (v \<in> set xs \<and> fgt v (case cur of None \<Rightarrow> Fin 0 | Some w \<Rightarrow> w) \<and> (\<forall>x\<in>set xs. \<not> fgt x v))"
proof (induction xs arbitrary: cur)
  case Nil
  show ?case by auto
next
  case (Cons x xs)
  define c0 where "c0 = (case cur of None \<Rightarrow> Fin 0 | Some w \<Rightarrow> w)"
  define R where "R \<longleftrightarrow> (\<forall>y\<in>set xs. \<not> fgt y v)"
  have curv: "cur = Some v \<Longrightarrow> c0 = v" by (simp add: c0_def)
  show ?case
  proof (cases "fgt x c0")
    case True
    then have nn: "x \<noteq> NaN" using fgt_not_NaN by blast
    have f1: "cur = Some v \<Longrightarrow> fgt x v" using True curv by simp
    have f2: "x = v \<Longrightarrow> fgt v c0 \<and> \<not> fgt x v" using True by simp
    have f3: "fgt v x \<Longrightarrow> fgt v c0 \<and> \<not> fgt x v"
      using True fgt_trans fgt_asym by blast
    have f4: "fgt v c0 \<Longrightarrow> \<not> fgt x v \<Longrightarrow> x = v \<or> fgt v x"
      using nn f64_trichotomy fgt_not_NaN by blast
    have "stepper cur (x # xs) = stepper (Some x) xs"
      using True by (simp add: c0_def)
    also have "\<dots> = Some v \<longleftrightarrow> (x = v \<and> R) \<or> (v \<in> set xs \<and> fgt v x \<and> R)"
      by (simp add: Cons.IH R_def)
    also have "\<dots> \<longleftrightarrow>
       (cur = Some v \<and> \<not> fgt x v \<and> R)
       \<or> ((v = x \<or> v \<in> set xs) \<and> fgt v c0 \<and> \<not> fgt x v \<and> R)"
      using f1 f2 f3 f4 by blast
    finally show ?thesis by (simp add: c0_def R_def)
  next
    case False
    have g1: "cur = Some v \<Longrightarrow> \<not> fgt x v" using False curv by simp
    have g2: "fgt v c0 \<Longrightarrow> \<not> fgt x v" using False fgt_trans by blast
    have g3: "v = x \<Longrightarrow> \<not> fgt v c0" using False by simp
    have "stepper cur (x # xs) = stepper cur xs"
      using False by (simp add: c0_def)
    also have "\<dots> = Some v \<longleftrightarrow> (cur = Some v \<and> R) \<or> (v \<in> set xs \<and> fgt v c0 \<and> R)"
      by (simp add: Cons.IH c0_def R_def)
    also have "\<dots> \<longleftrightarrow>
       (cur = Some v \<and> \<not> fgt x v \<and> R)
       \<or> ((v = x \<or> v \<in> set xs) \<and> fgt v c0 \<and> \<not> fgt x v \<and> R)"
      using g1 g2 g3 by blast
    finally show ?thesis by (simp add: c0_def R_def)
  qed
qed

lemma stepper_None:
  "stepper cur xs = None \<longleftrightarrow> cur = None \<and> (\<forall>x\<in>set xs. \<not> fgt x (Fin 0))"
  by (induction xs arbitrary: cur) auto

lemma loop_distinct:
  "distinct (map fst m) \<Longrightarrow> distinct (map fst (categoryScoresLoop m signals))"
  by (induction signals arbitrary: m) (auto simp: Let_def distinct_update)

lemma loop_append:
  "categoryScoresLoop m (xs @ ys) = categoryScoresLoop (categoryScoresLoop m xs) ys"
  by (induction xs arbitrary: m) (auto simp: Let_def)

lemma scores_char:
  "map_of (calculateCategoryScoresWithSignals signals) c = Some v \<longleftrightarrow>
     v \<in> set (confidencesOf c signals) \<and> fgt v (Fin 0)
     \<and> (\<forall>x\<in>set (confidencesOf c signals). \<not> fgt x v)"
  by (simp add: calculateCategoryScoresWithSignals_def loop_stepper stepper_char)

lemma scores_None:
  "map_of (calculateCategoryScoresWithSignals signals) c = None \<longleftrightarrow>
     (\<forall>x\<in>set (confidencesOf c signals). \<not> fgt x (Fin 0))"
  by (simp add: calculateCategoryScoresWithSignals_def loop_stepper stepper_None)

lemma flt_fgt_chain: "flt a x \<Longrightarrow> \<not> fgt x v \<Longrightarrow> v \<noteq> NaN \<Longrightarrow> \<not> fgt a v"
  by (cases a; cases x; cases v) (simp_all add: fgt_def)

lemma lower_signal_ignored:
  assumes "x \<in> set (confidencesOf (Category s) signals)" and "flt (Confidence s) x"
  shows "calculateCategoryScoresWithSignals (signals @ [s]) = calculateCategoryScoresWithSignals signals"
proof -
  let ?m = "calculateCategoryScoresWithSignals signals"
  have "\<not> fgt (Confidence s) (case map_of ?m (Category s) of None \<Rightarrow> Fin 0 | Some v \<Rightarrow> v)"
  proof (cases "map_of ?m (Category s)")
    case None
    then have "\<not> fgt x (Fin 0)" using assms(1) by (simp add: scores_None)
    then show ?thesis using None assms(2) by (simp add: flt_fgt_chain)
  next
    case (Some v)
    then have "fgt v (Fin 0)" "\<not> fgt x v" using assms(1) by (simp_all add: scores_char)
    then show ?thesis using Some assms(2) flt_fgt_chain fgt_not_NaN by (metis option.simps(5))
  qed
  then show ?thesis
    by (simp add: calculateCategoryScoresWithSignals_def loop_append Let_def)
qed

text \<open>
  Claim C2, as the code has it. The keys of the output are distinct. A category is mapped to
  \<open>v\<close> exactly when \<open>v\<close> is the confidence of one of its signals, is greater than 0 and is
  exceeded by the confidence of none of its signals: the maximum, provided it is positive. A
  category is absent exactly when none of its signals has a confidence above 0, so a category
  with no signal is absent. The empty list gives the empty map, and a signal appended with a
  confidence strictly below that of a signal of its category leaves the output as it was.
\<close>

theorem aggregator_max_positive:
  "distinct (map fst (calculateCategoryScoresWithSignals signals))
   \<and> (map_of (calculateCategoryScoresWithSignals signals) c = Some v \<longleftrightarrow>
        v \<in> set (confidencesOf c signals) \<and> fgt v (Fin 0)
        \<and> (\<forall>x\<in>set (confidencesOf c signals). \<not> fgt x v))
   \<and> (map_of (calculateCategoryScoresWithSignals signals) c = None \<longleftrightarrow>
        (\<forall>x\<in>set (confidencesOf c signals). \<not> fgt x (Fin 0)))
   \<and> (confidencesOf c signals = [] \<longrightarrow>
        map_of (calculateCategoryScoresWithSignals signals) c = None)
   \<and> calculateCategoryScoresWithSignals [] = []
   \<and> ((\<exists>x\<in>set (confidencesOf (Category s) signals). flt (Confidence s) x) \<longrightarrow>
        calculateCategoryScoresWithSignals (signals @ [s])
          = calculateCategoryScoresWithSignals signals)"
proof -
  have "distinct (map fst (calculateCategoryScoresWithSignals signals))"
    by (simp add: calculateCategoryScoresWithSignals_def loop_distinct)
  moreover have "calculateCategoryScoresWithSignals [] = []"
    by (simp add: calculateCategoryScoresWithSignals_def)
  moreover have "confidencesOf c signals = [] \<longrightarrow>
        map_of (calculateCategoryScoresWithSignals signals) c = None"
    by (simp add: scores_None)
  ultimately show ?thesis
    using scores_char scores_None lower_signal_ignored by blast
qed

text \<open>
  The theorem at two UX signals of confidence 0.8 and 0.7: UX is mapped to 0.8, CDN, which has
  no signal, is absent, and a third UX signal of confidence 0.5 changes nothing.
\<close>

theorem aggregator_max_positive_witness:
  "map_of (calculateCategoryScoresWithSignals
             [sig ''a'' ''UX'' '''' (c64 0.8), sig ''b'' ''UX'' '''' (c64 0.7)]) ''UX''
     = Some (c64 0.8)
   \<and> map_of (calculateCategoryScoresWithSignals
             [sig ''a'' ''UX'' '''' (c64 0.8), sig ''b'' ''UX'' '''' (c64 0.7)]) ''CDN'' = None
   \<and> calculateCategoryScoresWithSignals
        ([sig ''a'' ''UX'' '''' (c64 0.8), sig ''b'' ''UX'' '''' (c64 0.7)]
           @ [sig ''c'' ''UX'' '''' (c64 0.5)])
      = calculateCategoryScoresWithSignals
          [sig ''a'' ''UX'' '''' (c64 0.8), sig ''b'' ''UX'' '''' (c64 0.7)]"
  using aggregator_max_positive
          [of "[sig ''a'' ''UX'' '''' (c64 0.8), sig ''b'' ''UX'' '''' (c64 0.7)]"
              "''UX''" "c64 0.8" "sig ''c'' ''UX'' '''' (c64 0.5)"]
        aggregator_max_positive
          [of "[sig ''a'' ''UX'' '''' (c64 0.8), sig ''b'' ''UX'' '''' (c64 0.7)]"
              "''CDN''" "c64 0.8" "sig ''c'' ''UX'' '''' (c64 0.5)"]
  by (simp add: confidencesOf_def sig_def fgt_def c64_def roundings)

text \<open>
  Claim C2 as stated fails where the maximum of a category is not positive: a UX signal of
  confidence 0 leaves no UX entry in the output, and after a UX signal of confidence -0.5 the
  read of the UX entry gives 0.
\<close>

theorem aggregator_nonpositive_counterexample:
  "confidencesOf ''UX'' [sig ''a'' ''UX'' '''' (Fin 0)] = [Fin 0]
   \<and> map_of (calculateCategoryScoresWithSignals [sig ''a'' ''UX'' '''' (Fin 0)]) ''UX'' = None
   \<and> confidencesOf ''UX'' [sig ''a'' ''UX'' '''' (Fin (- 0.5))] = [Fin (- 0.5)]
   \<and> lookup0 (calculateCategoryScoresWithSignals [sig ''a'' ''UX'' '''' (Fin (- 0.5))]) ''UX''
       = Fin 0"
  by (simp add: confidencesOf_def sig_def fgt_def calculateCategoryScoresWithSignals_def lookup0_def)

section \<open>The range of the score\<close>

text \<open>The two comparisons of the clamp let NaN through, and nothing else.\<close>

lemma clamp01_unit_range_iff: "unit_range (clamp01 x) \<longleftrightarrow> x \<noteq> NaN"
  by (cases x) (auto simp: clamp01_def fgt_def Let_def)

text \<open>
  Claim C3 fails in the code. The profile with the weights 0.5, 0.5, 0, 0, 0 is accepted by
  \<^verbatim>\<open>validateProfile\<close>; with one INFRA signal of confidence \<open>+Inf\<close> the weighted sum holds the
  product of \<open>+Inf\<close> and the weight 0, which is NaN, and the score returned is NaN. The profile
  with the weights -2, 3, 0, 0, 0 is accepted as well (the sum is 1); with a UX and a PAYMENT
  signal of the finite confidence \<open>2\<^sup>1\<^sup>0\<^sup>2\<^sup>3\<close> the two products overflow to \<open>-Inf\<close> and \<open>+Inf\<close>, their
  sum is NaN, and the score returned is NaN. NaN is not a number between 0 and 1.
\<close>

theorem final_score_not_a_number:
  "validateProfile half_half_profile = None
   \<and> finalScore half_half_profile [sig ''s1'' ''INFRA'' '''' PInf] = NaN
   \<and> validateProfile negative_weight_profile = None
   \<and> finalScore negative_weight_profile
        [sig ''s1'' ''UX'' '''' (Fin (2 ^ 1023)), sig ''s2'' ''PAYMENT'' '''' (Fin (2 ^ 1023))] = NaN
   \<and> \<not> unit_range
         (finalScore negative_weight_profile
            [sig ''s1'' ''UX'' '''' (Fin (2 ^ 1023)), sig ''s2'' ''PAYMENT'' '''' (Fin (2 ^ 1023))])"
proof -
  have 1: "validateProfile half_half_profile = None"
    by (simp add: validateProfile_def half_half_profile_def totalWeight_def fne_def fgt_def
        c64_def roundings)
  have 2: "finalScore half_half_profile [sig ''s1'' ''INFRA'' '''' PInf] = NaN"
    by (simp add: finalScore_def calculateEnhancedJLIScore_def calculateJLIScore_def Let_def
        calculateCategoryScoresWithSignals_def sig_def lookup0_def half_half_profile_def
        inf_times_def clamp01_def fgt_def c64_def roundings)
  have 3: "validateProfile negative_weight_profile = None"
    by (simp add: validateProfile_def negative_weight_profile_def totalWeight_def fne_def fgt_def
        c64_def roundings)
  have 4: "finalScore negative_weight_profile
        [sig ''s1'' ''UX'' '''' (Fin (2 ^ 1023)), sig ''s2'' ''PAYMENT'' '''' (Fin (2 ^ 1023))] = NaN"
    by (simp add: finalScore_def calculateEnhancedJLIScore_def calculateJLIScore_def Let_def
        calculateCategoryScoresWithSignals_def sig_def lookup0_def negative_weight_profile_def
        clamp01_def fgt_def c64_def roundings)
  show ?thesis
    by (simp only: 1 2 3 4) simp
qed

section \<open>The scenario of the specification\<close>

lemma confidencesOf_catconf:
  "set (confidencesOf c signals) = {v. (c, v) \<in> set (map catconf signals)}"
  by (auto simp: confidencesOf_def catconf_def)

lemma high_count_catconf:
  "length (filter (\<lambda>s. P (Confidence s)) signals)
     = size (filter_mset (\<lambda>p. P (snd p)) (mset (map catconf signals)))"
proof -
  have "filter (\<lambda>p. P (snd p)) (map catconf signals) = map catconf (filter (\<lambda>s. P (Confidence s)) signals)"
    by (simp add: filter_map comp_def catconf_def)
  then have "size (mset (filter (\<lambda>p. P (snd p)) (map catconf signals)))
      = length (filter (\<lambda>s. P (Confidence s)) signals)"
    by (simp del: mset_filter mset_map)
  then show ?thesis by simp
qed

lemma positive_entries_count:
  assumes "map_of m a = Some x" "map_of m b = Some y" "map_of m c = Some z"
    and "fgt x (Fin 0)" "fgt y (Fin 0)" "fgt z (Fin 0)"
    and "a \<noteq> b" "a \<noteq> c" "b \<noteq> c"
  shows "3 \<le> length (filter (\<lambda>(category, score). fgt score (Fin 0)) m)"
proof -
  let ?f = "filter (\<lambda>(category, score). fgt score (Fin 0)) m"
  have "{(a, x), (b, y), (c, z)} \<subseteq> set ?f"
    using assms by (auto dest: map_of_SomeD)
  then have "card {(a, x), (b, y), (c, z)} \<le> card (set ?f)"
    by (intro card_mono) simp_all
  also have "\<dots> \<le> length ?f" by (rule card_length)
  finally show ?thesis using assms(7-9) by simp
qed

text \<open>
  Claim C1. A signal list that holds exactly one signal of each scoring category, with the
  confidences UX 0.8, PAYMENT 0.9, INFRA 0.6, DNS 0.4 and CDN 0.3, in any order and with any
  ids, descriptions and evidence, has under the default profile the score 0.675 and the level
  MEDIUM. The confidences, the weights, the thresholds and the score are the binary64 values
  of these decimals, and every product and sum of the scorer is rounded: the sum of the five
  rounded products is the binary64 value of 0.675 itself.
\<close>

theorem scenario_score:
  assumes "mset (map catconf signals) =
     {#(''UX'', c64 0.8), (''PAYMENT'', c64 0.9), (''INFRA'', c64 0.6), (''DNS'', c64 0.4),
       (''CDN'', c64 0.3)#}"
  shows "finalScore GetDefaultConfig signals = c64 0.675
         \<and> finalLevel GetDefaultConfig signals = ''MEDIUM''"
proof -
  let ?m = "calculateCategoryScoresWithSignals signals"
  have "set_mset (mset (map catconf signals)) =
     {(''UX'', c64 0.8), (''PAYMENT'', c64 0.9), (''INFRA'', c64 0.6), (''DNS'', c64 0.4),
       (''CDN'', c64 0.3)}"
    by (simp only: assms) simp
  then have P: "catconf ` set signals =
     {(''UX'', c64 0.8), (''PAYMENT'', c64 0.9), (''INFRA'', c64 0.6), (''DNS'', c64 0.4),
       (''CDN'', c64 0.3)}"
    by (simp only: set_mset_mset set_map)
  have ux: "map_of ?m ''UX'' = Some (c64 0.8)"
    by (simp add: scores_char confidencesOf_catconf P fgt_def c64_def roundings)
  have pay: "map_of ?m ''PAYMENT'' = Some (c64 0.9)"
    by (simp add: scores_char confidencesOf_catconf P fgt_def c64_def roundings)
  have infra: "map_of ?m ''INFRA'' = Some (c64 0.6)"
    by (simp add: scores_char confidencesOf_catconf P fgt_def c64_def roundings)
  have dns: "map_of ?m ''DNS'' = Some (c64 0.4)"
    by (simp add: scores_char confidencesOf_catconf P fgt_def c64_def roundings)
  have cdn: "map_of ?m ''CDN'' = Some (c64 0.3)"
    by (simp add: scores_char confidencesOf_catconf P fgt_def c64_def roundings)
  have "3 \<le> length (filter (\<lambda>(category, score). fgt score (Fin 0)) ?m)"
    by (rule positive_entries_count [OF ux pay infra]) (simp_all add: fgt_def c64_def roundings)
  then have cf: "calculateConfidenceFactor ?m = Fin 1"
    by (simp add: calculateConfidenceFactor_def Let_def)
  have base: "calculateJLIScore ?m (Scoring GetDefaultConfig) = c64 0.675"
    by (simp add: calculateJLIScore_def Let_def cf lookup0_def ux pay infra dns cdn
        GetDefaultConfig_def clamp01_def fgt_def c64_def roundings)
  have "size (mset (map catconf signals)) = 5"
    by (simp only: assms) simp
  then have len: "length signals = 5" by simp
  have "length (filter (\<lambda>s. fge (Confidence s) (c64 0.8)) signals)
      = size (filter_mset (\<lambda>p. fge (snd p) (c64 0.8)) (mset (map catconf signals)))"
    by (rule high_count_catconf [of "\<lambda>x. fge x (c64 0.8)"])
  also have "\<dots> = 2"
    by (simp only: assms) (simp add: c64_def roundings)
  finally have "length (filter (\<lambda>s. fge (Confidence s) (c64 0.8)) signals) = 2" .
  then have sf: "calculateSignalFactor signals = Fin 1"
    by (simp add: calculateSignalFactor_def Let_def len float64_def c64_def roundings)
  have score: "finalScore GetDefaultConfig signals = c64 0.675"
    by (simp add: finalScore_def calculateEnhancedJLIScore_def Let_def base sf
        calculateTemporalFactor_def clamp01_def fgt_def c64_def roundings)
  have "finalLevel GetDefaultConfig signals
      = classifyJLILevel (c64 0.675) (Threshold GetDefaultConfig)"
    by (simp only: finalLevel_def score)
  also have "\<dots> = ''MEDIUM''"
    by (simp add: classifyJLILevel_def GetDefaultConfig_def c64_def roundings)
  finally show ?thesis using score by simp
qed

text \<open>
  The theorem at the five signals in the order of the specification.
\<close>

theorem scenario_score_witness:
  "finalScore GetDefaultConfig
     [sig ''s1'' ''UX'' '''' (c64 0.8), sig ''s2'' ''PAYMENT'' '''' (c64 0.9),
      sig ''s3'' ''INFRA'' '''' (c64 0.6), sig ''s4'' ''DNS'' '''' (c64 0.4),
      sig ''s5'' ''CDN'' '''' (c64 0.3)] = c64 0.675
   \<and> finalLevel GetDefaultConfig
     [sig ''s1'' ''UX'' '''' (c64 0.8), sig ''s2'' ''PAYMENT'' '''' (c64 0.9),
      sig ''s3'' ''INFRA'' '''' (c64 0.6), sig ''s4'' ''DNS'' '''' (c64 0.4),
      sig ''s5'' ''CDN'' '''' (c64 0.3)] = ''MEDIUM''"
  by (rule scenario_score) (simp add: catconf_def sig_def)

section \<open>Validation of a profile\<close>

lemma thresholds_ok_iff:
  assumes "h \<noteq> NaN" "m \<noteq> NaN"
  shows "(\<not> flt h m \<and> \<not> fgt h (Fin 1) \<and> \<not> fgt m (Fin 1) \<and> \<not> flt h (Fin 0) \<and> \<not> flt m (Fin 0))
     \<longleftrightarrow> (fge h m \<and> fge m (Fin 0) \<and> fge (Fin 1) h)"
  using assms by (cases h; cases m) (auto simp: fgt_def)

lemma fne_Fin_iff: "fne x (Fin r) \<longleftrightarrow> x \<noteq> Fin r"
  by (cases x) (simp_all add: fne_def)

text \<open>
  Claim C4, as the code has it. The sum of the weights is the float64 sum \<open>totalWeight\<close>: the
  five weights added from left to right, each addition rounded. \<^verbatim>\<open>validateProfile\<close>, the whole of
  \<^verbatim>\<open>CreateProfile\<close>, rejects a profile whose sum is not exactly 1.0, with the error that carries
  the sum; for thresholds that are not NaN it accepts a profile exactly when the sum is 1.0,
  the medium threshold is not above the high one and both lie between 0 and 1; it changes no
  profile; the profile with five weights of 0.3 is rejected with the sum 1.5. There is no
  tolerance: the built-in profile \<^verbatim>\<open>intensive\<close>, with the weights 0.35, 0.30, 0.20, 0.10 and
  0.05, has the float64 sum \<open>1 - 2\<^sup>-\<^sup>5\<^sup>3\<close> and is rejected, and the profile with the weights 1,
  \<open>10\<^sup>-\<^sup>1\<^sup>7\<close>, 0, 0 and 0 has the float64 sum 1.0 and is accepted. The load, \<^verbatim>\<open>Initialize\<close>, rejects
  nothing: it installs the configuration as read, and logs a warning when the sum is not 1.0.
\<close>

theorem validateProfile_rejects:
  "(totalWeight (Scoring p) \<noteq> Fin 1 \<longrightarrow>
      validateProfile p = Some (WeightsSum (totalWeight (Scoring p))))
   \<and> (High (Threshold p) \<noteq> NaN \<and> Medium (Threshold p) \<noteq> NaN \<longrightarrow>
        (validateProfile p = None \<longleftrightarrow> valid_profile p))
   \<and> CreateProfile name (Scoring p) (Threshold p) = validateProfile p
   \<and> validateProfile all_03_profile = Some (WeightsSum (Fin 1.5))
   \<and> validateProfile intensive_profile = Some (WeightsSum (Fin (1 - 1 / 2 ^ 53)))
   \<and> validateProfile absorbed_weight_profile = None
   \<and> Initialize (Some p) =
        Loaded p (if totalWeight (Scoring p) \<noteq> Fin 1
                  then [WeightsWarning (totalWeight (Scoring p))] else [])"
proof -
  have a: "totalWeight (Scoring p) \<noteq> Fin 1 \<longrightarrow>
      validateProfile p = Some (WeightsSum (totalWeight (Scoring p)))"
    by (simp add: validateProfile_def fne_Fin_iff)
  have b: "High (Threshold p) \<noteq> NaN \<and> Medium (Threshold p) \<noteq> NaN \<longrightarrow>
        (validateProfile p = None \<longleftrightarrow> valid_profile p)"
  proof
    assume nn: "High (Threshold p) \<noteq> NaN \<and> Medium (Threshold p) \<noteq> NaN"
    have "validateProfile p = None \<longleftrightarrow>
       totalWeight (Scoring p) = Fin 1
       \<and> (\<not> flt (High (Threshold p)) (Medium (Threshold p))
          \<and> \<not> fgt (High (Threshold p)) (Fin 1) \<and> \<not> fgt (Medium (Threshold p)) (Fin 1)
          \<and> \<not> flt (High (Threshold p)) (Fin 0) \<and> \<not> flt (Medium (Threshold p)) (Fin 0))"
      by (auto simp: validateProfile_def fne_Fin_iff)
    also have "\<dots> \<longleftrightarrow> valid_profile p"
      using thresholds_ok_iff [of "High (Threshold p)" "Medium (Threshold p)"] nn
      unfolding valid_profile_def by blast
    finally show "validateProfile p = None \<longleftrightarrow> valid_profile p" .
  qed
  have c: "CreateProfile name (Scoring p) (Threshold p) = validateProfile p"
    by (cases p) (simp add: CreateProfile_def)
  have d: "validateProfile all_03_profile = Some (WeightsSum (Fin 1.5))"
    by (simp add: validateProfile_def all_03_profile_def totalWeight_def fne_def c64_def roundings)
  have d': "validateProfile intensive_profile = Some (WeightsSum (Fin (1 - 1 / 2 ^ 53)))"
    by (simp add: validateProfile_def intensive_profile_def totalWeight_def fne_def c64_def
        roundings)
  have d'': "validateProfile absorbed_weight_profile = None"
    by (simp add: validateProfile_def absorbed_weight_profile_def totalWeight_def fne_def fgt_def
        c64_def roundings)
  have e: "Initialize (Some p) =
        Loaded p (if totalWeight (Scoring p) \<noteq> Fin 1
                  then [WeightsWarning (totalWeight (Scoring p))] else [])"
    by (simp add: Initialize_def fne_Fin_iff)
  show ?thesis using a b c d d' d'' e by blast
qed

text \<open>
  The theorem at the profile of five weights 0.3, which is rejected, and at the default
  profile, whose float64 sum is 1.0 and which is accepted.
\<close>

theorem validateProfile_rejects_witness:
  "totalWeight (Scoring all_03_profile) \<noteq> Fin 1
   \<and> validateProfile all_03_profile = Some (WeightsSum (totalWeight (Scoring all_03_profile)))
   \<and> High (Threshold GetDefaultConfig) \<noteq> NaN \<and> Medium (Threshold GetDefaultConfig) \<noteq> NaN
   \<and> valid_profile GetDefaultConfig
   \<and> validateProfile GetDefaultConfig = None"
proof -
  have v: "valid_profile GetDefaultConfig"
    by (simp add: valid_profile_def GetDefaultConfig_def totalWeight_def c64_def roundings)
  have n: "totalWeight (Scoring all_03_profile) \<noteq> Fin 1"
    by (simp add: totalWeight_def all_03_profile_def c64_def roundings)
  have t: "High (Threshold GetDefaultConfig) \<noteq> NaN \<and> Medium (Threshold GetDefaultConfig) \<noteq> NaN"
    by (simp add: GetDefaultConfig_def c64_def roundings)
  show ?thesis
    using v n t validateProfile_rejects [of all_03_profile]
      validateProfile_rejects [of GetDefaultConfig] by blast
qed

text \<open>
  Claim C4 as stated fails at load time: \<^verbatim>\<open>Initialize\<close> installs the profile of five weights 0.3,
  which \<^verbatim>\<open>validateProfile\<close> rejects, with a warning in the log, and also with thresholds out of
  order and out of range.
\<close>

theorem load_accepts_invalid_counterexample:
  "validateProfile all_03_profile \<noteq> None
   \<and> Initialize (Some all_03_profile) = Loaded all_03_profile [WeightsWarning (Fin 1.5)]
   \<and> Initialize (Some (all_03_profile\<lparr>Threshold := \<lparr>High = c64 0.2, Medium = Fin 7\<rparr>\<rparr>))
       = Loaded (all_03_profile\<lparr>Threshold := \<lparr>High = c64 0.2, Medium = Fin 7\<rparr>\<rparr>)
           [WeightsWarning (Fin 1.5)]"
  by (simp add: validateProfile_def Initialize_def all_03_profile_def totalWeight_def fne_def
      c64_def roundings)

section \<open>The resources of an analysis\<close>

lemma matchesAny_iff: "matchesAny s xs \<longleftrightarrow> s \<in> set xs"
  by (induction xs) auto

lemma resources_distinct_loop:
  "distinct (map fst r) \<Longrightarrow> distinct (map fst (sharedResourcesLoop L r sigs))"
  by (induction sigs arbitrary: r) (auto simp: Let_def distinct_update)

lemma resources_distinct: "distinct (map fst (extractSharedResources L a))"
  by (simp add: extractSharedResources_def resources_distinct_loop)

lemma resources_keys_loop:
  "fst ` set (sharedResourcesLoop L r sigs) \<subseteq> fst ` set r \<union> {''ip'', ''wallet''}"
proof (induction sigs arbitrary: r)
  case Nil
  show ?case by auto
next
  case (Cons x sigs)
  have ip: "fst ` set (sharedResourcesLoop L (AList.update ''ip'' v r) sigs)
      \<subseteq> fst ` set r \<union> {''ip'', ''wallet''}" for v
    using Cons.IH [of "AList.update ''ip'' v r"] by (auto simp: dom_update)
  have wallet: "fst ` set (sharedResourcesLoop L (AList.update ''wallet'' v r) sigs)
      \<subseteq> fst ` set r \<union> {''ip'', ''wallet''}" for v
    using Cons.IH [of "AList.update ''wallet'' v r"] by (auto simp: dom_update)
  show ?case
    using ip wallet Cons.IH [of r] by (simp add: Let_def)
qed

lemma resources_length: "length (extractSharedResources L a) \<le> 2"
proof -
  let ?r = "extractSharedResources L a"
  have "fst ` set ?r \<subseteq> {''ip'', ''wallet''}"
    using resources_keys_loop [of L "[]" "signalsOf a"] by (simp add: extractSharedResources_def)
  then have "card (fst ` set ?r) \<le> card {''ip'', ''wallet''}"
    by (intro card_mono) simp_all
  moreover have "card (fst ` set ?r) = length ?r"
    using resources_distinct [of L a] distinct_card [of "map fst ?r"] by simp
  ultimately show ?thesis by simp
qed

lemma resources_ip_kept:
  "map_of r ''ip'' \<noteq> None \<Longrightarrow> map_of (sharedResourcesLoop L r sigs) ''ip'' \<noteq> None"
  by (induction sigs arbitrary: r) (simp_all add: Let_def update_conv')

lemma resources_ip_found:
  assumes "s \<in> set sigs" "Category s = ''INFRA''" "Contains (Description s) ''origin IP''"
    and "extractIPFromDescription L (Description s) \<noteq> ''''"
  shows "map_of (sharedResourcesLoop L r sigs) ''ip'' \<noteq> None"
  using assms(1)
proof (induction sigs arbitrary: r)
  case Nil
  then show ?case by simp
next
  case (Cons x sigs)
  show ?case
  proof (cases "x = s")
    case True
    have "sharedResourcesLoop L r (x # sigs)
        = sharedResourcesLoop L
            (AList.update ''ip'' (extractIPFromDescription L (Description s)) r) sigs"
      using True assms(2-4) by (simp add: Let_def)
    then show ?thesis
      using resources_ip_kept
        [of "AList.update ''ip'' (extractIPFromDescription L (Description s)) r" L sigs]
      by (simp add: update_conv')
  next
    case False
    then have "s \<in> set sigs" using Cons.prems by simp
    then show ?thesis using Cons.IH by (simp add: Let_def)
  qed
qed

lemma resources_nonempty:
  assumes "s \<in> set (signalsOf a)" "Category s = ''INFRA''"
    and "Contains (Description s) ''origin IP''"
    and "extractIPFromDescription L (Description s) \<noteq> ''''"
  shows "extractSharedResources L a \<noteq> []"
proof
  assume "extractSharedResources L a = []"
  then have "map_of (sharedResourcesLoop L [] (signalsOf a)) ''ip'' = None"
    by (simp add: extractSharedResources_def)
  then show False using resources_ip_found [OF assms, of "[]"] by simp
qed

section \<open>The examples, evaluated\<close>

lemma origin_fields:
  "Fields lib0 (Description origin_signal)
     = [''Potential'', ''origin'', ''IP'', ''detected'', ''behind'', ''CDN:'', ''203.0.113.7'']"
  by (simp add: lib0_def origin_signal_def sig_def Split_def)

lemma origin_ip: "extractIPFromDescription lib0 (Description origin_signal) = ''203.0.113.7''"
  by (simp add: extractIPFromDescription_def origin_fields) (simp add: lib0_def)

lemma origin_contains: "Contains (Description origin_signal) ''origin IP''"
  by (simp add: origin_signal_def sig_def)

lemma moved_origin_fields:
  "Fields lib0 (Description moved_origin_signal)
     = [''Potential'', ''origin'', ''IP'', ''detected'', ''behind'', ''CDN:'', ''203.0.113.9'']"
  by (simp add: lib0_def moved_origin_signal_def sig_def Split_def)

lemma moved_origin_ip:
  "extractIPFromDescription lib0 (Description moved_origin_signal) = ''203.0.113.9''"
  by (simp add: extractIPFromDescription_def moved_origin_fields) (simp add: lib0_def)

lemma moved_origin_contains: "Contains (Description moved_origin_signal) ''origin IP''"
  by (simp add: moved_origin_signal_def sig_def)

lemma wallet_contains: "Contains (Description wallet_signal) ''cryptocurrency address''"
  by (simp add: wallet_signal_def sig_def)

lemma wallet_value:
  "extractWalletFromDescription lib0 (Description wallet_signal)
     = ''bc1qar0srrr7xfkvy5l643lydnw9re59gtzzwf5mdq''"
  by (simp add: extractWalletFromDescription_def wallet_signal_def sig_def Split_def lib0_def
      example_trim_def Let_def)

lemma resources_a: "extractSharedResources lib0 analysis_a = [(''ip'', ''203.0.113.7'')]"
  by (simp add: extractSharedResources_def analysis_a_def analysisOf_def signalsOf_def
      origin_contains origin_ip)
    (simp add: origin_signal_def sig_def)

lemma resources_b:
  "extractSharedResources lib0 analysis_b
     = [(''ip'', ''203.0.113.7''), (''wallet'', ''bc1qar0srrr7xfkvy5l643lydnw9re59gtzzwf5mdq'')]"
  by (simp add: extractSharedResources_def analysis_b_def analysisOf_def signalsOf_def
      origin_contains origin_ip wallet_contains wallet_value)
    (simp add: origin_signal_def wallet_signal_def sig_def)

lemma resources_c: "extractSharedResources lib0 analysis_c = [(''ip'', ''203.0.113.9'')]"
  by (simp add: extractSharedResources_def analysis_c_def analysisOf_def signalsOf_def
      origin_contains origin_ip moved_origin_contains moved_origin_ip)
    (simp add: origin_signal_def moved_origin_signal_def sig_def)

lemma signals_a: "signalsOf analysis_a = [origin_signal]"
  by (simp add: analysis_a_def analysisOf_def signalsOf_def)

lemma signals_b: "signalsOf analysis_b = [origin_signal, wallet_signal]"
  by (simp add: analysis_b_def analysisOf_def signalsOf_def)

lemma signals_c: "signalsOf analysis_c = [origin_signal, moved_origin_signal]"
  by (simp add: analysis_c_def analysisOf_def signalsOf_def)

lemma shared_signals_a: "extractSharedSignals analysis_a = [''origin_ip_detected'']"
  by (simp add: extractSharedSignals_def signals_a) (simp add: origin_signal_def sig_def)

lemma shared_signals_b:
  "extractSharedSignals analysis_b = [''origin_ip_detected'', ''crypto_wallet'']"
  by (simp add: extractSharedSignals_def signals_b)
    (simp add: origin_signal_def wallet_signal_def sig_def)

lemma shared_signals_c:
  "extractSharedSignals analysis_c = [''origin_ip_detected'', ''origin_ip_detected'']"
  by (simp add: extractSharedSignals_def signals_c)
    (simp add: origin_signal_def moved_origin_signal_def sig_def)

lemma cluster_id_a: "generateClusterID lib0 ''a.example'' analysis_a = ''864aa0942b7b''"
  by (simp add: generateClusterID_def signals_a)
    (simp add: origin_signal_def sig_def lib0_def example_md5_def)

lemma cluster_id_b: "generateClusterID lib0 ''b.example'' analysis_b = ''87c411bab6aa''"
  by (simp add: generateClusterID_def signals_b)
    (simp add: origin_signal_def wallet_signal_def sig_def lib0_def example_md5_def)

lemma cluster_id_c: "generateClusterID lib0 ''b.example'' analysis_c = ''0dd4f8cde4a0''"
  by (simp add: generateClusterID_def signals_c)
    (simp add: origin_signal_def moved_origin_signal_def sig_def lib0_def example_md5_def)

lemma categories_a: "extractSignalCategories analysis_a = [''INFRA'']"
  by (simp add: extractSignalCategories_def signals_a) (simp add: origin_signal_def sig_def)

lemma categories_b: "extractSignalCategories analysis_b = [''INFRA'', ''PAYMENT'']"
  by (simp add: extractSignalCategories_def signals_b)
    (simp add: origin_signal_def wallet_signal_def sig_def)

lemma categories_c: "extractSignalCategories analysis_c = [''INFRA'']"
  by (simp add: extractSignalCategories_def signals_c)
    (simp add: origin_signal_def moved_origin_signal_def sig_def)

lemma first_add:
  "AddDomainToCluster lib0 100 ''a.example'' analysis_a NewClusterEngine
     = Some (''864aa0942b7b'', first_engine)"
  by (simp add: AddDomainToCluster_def findBestCluster_def NewClusterEngine_def Let_def
      cluster_id_a shared_signals_a resources_a first_engine_def)

lemma similarity_first_a:
  "calculateClusterSimilarity lib0 (snd (hd (Clusters first_engine))) analysis_a = c64 0.6"
  by (simp add: calculateClusterSimilarity_def Let_def first_engine_def categories_a
      resources_a float64_def c64_def roundings)

lemma similarity_first_b:
  "calculateClusterSimilarity lib0 (snd (hd (Clusters first_engine))) analysis_b = c64 0.3"
  by (simp add: calculateClusterSimilarity_def Let_def first_engine_def categories_b
      resources_b float64_def c64_def roundings)

lemma similarity_first_c:
  "calculateClusterSimilarity lib0 (snd (hd (Clusters first_engine))) analysis_c = Fin 0"
  by (simp add: calculateClusterSimilarity_def Let_def first_engine_def categories_c
      resources_c float64_def c64_def roundings)

lemma best_first_a: "findBestCluster lib0 first_engine analysis_a = ''864aa0942b7b''"
  using similarity_first_a
  by (simp add: findBestCluster_def first_engine_def Let_def fgt_def c64_def roundings)

lemma best_first_b: "findBestCluster lib0 first_engine analysis_b = ''''"
  using similarity_first_b
  by (simp add: findBestCluster_def first_engine_def Let_def fgt_def c64_def roundings)

lemma best_first_c: "findBestCluster lib0 first_engine analysis_c = ''''"
  using similarity_first_c
  by (simp add: findBestCluster_def first_engine_def Let_def fgt_def c64_def roundings)

lemma second_add_same_domain:
  "AddDomainToCluster lib0 200 ''a.example'' analysis_a first_engine
     = Some (''864aa0942b7b'', twice_engine)"
  by (simp add: AddDomainToCluster_def best_first_a Let_def)
    (simp add: first_engine_def twice_engine_def updateSharedResources_def resources_a)

lemma second_add_other_domain:
  "AddDomainToCluster lib0 200 ''b.example'' analysis_b first_engine
     = Some (''87c411bab6aa'', second_engine)"
  by (simp add: AddDomainToCluster_def best_first_b Let_def cluster_id_b shared_signals_b
      resources_b)
    (simp add: first_engine_def second_engine_def)

lemma second_add_moved_origin:
  "AddDomainToCluster lib0 200 ''b.example'' analysis_c first_engine
     = Some (''0dd4f8cde4a0'', split_engine)"
  by (simp add: AddDomainToCluster_def best_first_c Let_def cluster_id_c shared_signals_c
      resources_c)
    (simp add: first_engine_def split_engine_def)

lemma resources_m: "extractSharedResources lib0 analysis_m = [(''ip'', ''203.0.113.9'')]"
  by (simp add: extractSharedResources_def analysis_m_def analysisOf_def signalsOf_def
      moved_origin_contains moved_origin_ip)
    (simp add: moved_origin_signal_def sig_def)

lemma signals_m: "signalsOf analysis_m = [moved_origin_signal]"
  by (simp add: analysis_m_def analysisOf_def signalsOf_def)

lemma second_add_joining_domain:
  "AddDomainToCluster lib0 200 ''c.example'' analysis_a first_engine
     = Some (''864aa0942b7b'', pair_engine)"
  by (simp add: AddDomainToCluster_def best_first_a Let_def)
    (simp add: first_engine_def pair_engine_def updateSharedResources_def resources_a)

lemma readd_moved_origin:
  "AddDomainToCluster lib0 300 ''a.example'' analysis_m pair_engine
     = Some (''864aa0942b7b'', replaced_engine)"
proof -
  have "calculateClusterSimilarity lib0 (snd (hd (Clusters pair_engine))) analysis_m = Fin 0"
    by (simp add: calculateClusterSimilarity_def Let_def pair_engine_def resources_m
        extractSignalCategories_def signals_m float64_def c64_def roundings)
      (simp add: moved_origin_signal_def sig_def)
  then have "findBestCluster lib0 pair_engine analysis_m = ''''"
    by (simp add: findBestCluster_def pair_engine_def Let_def fgt_def)
  then show ?thesis
    by (simp add: AddDomainToCluster_def Let_def generateClusterID_def extractSharedSignals_def
        signals_m resources_m)
      (simp add: moved_origin_signal_def sig_def lib0_def example_md5_def pair_engine_def
        replaced_engine_def)
qed

section \<open>Similarity and assignment\<close>

text \<open>
  Claim C5 fails in the code. A cluster stores the ids of the signals of its founder
  (\<^verbatim>\<open>extractSharedSignals\<close>), and \<^verbatim>\<open>calculateClusterSimilarity\<close> compares these ids with the
  categories of the analysis (\<^verbatim>\<open>extractSignalCategories\<close>): the id \<open>origin_ip_detected\<close> is
  not the category \<open>INFRA\<close>, so the first term of the similarity is 0 where the claim has
  0.4. The cluster that \<open>a.example\<close> founds has, with the analysis that founded it, the
  similarity 0.6, where the formula of the claim gives 0.4 + 0.6 = 1.0. With the analysis of
  \<open>b.example\<close>, which has the same origin signal and a wallet besides, it has the similarity
  0.3, where the formula of the claim gives 0.4 + 0.6 \<cdot> 1/2 = 0.7; so \<open>b.example\<close> founds a
  cluster of its own, where by the claim it joins the cluster of \<open>a.example\<close>. And the
  cluster that the other branch creates may take the place of one that exists: the id is a
  hash of the domain and of its signal ids, so when \<open>a.example\<close> is added again after its
  origin address has moved (similarity 0), the new cluster is stored under the id of the
  cluster of \<open>a.example\<close> and \<open>c.example\<close>, which is lost with its domains.
\<close>

theorem similarity_compares_ids_with_categories:
  "AddDomainToCluster lib0 100 ''a.example'' analysis_a NewClusterEngine
     = Some (''864aa0942b7b'', first_engine)
   \<and> SharedSignals (snd (hd (Clusters first_engine))) = [''origin_ip_detected'']
   \<and> SharedResources (snd (hd (Clusters first_engine))) = [(''ip'', ''203.0.113.7'')]
   \<and> extractSignalCategories analysis_a = [''INFRA'']
   \<and> extractSharedResources lib0 analysis_a = [(''ip'', ''203.0.113.7'')]
   \<and> calculateClusterSimilarity lib0 (snd (hd (Clusters first_engine))) analysis_a = c64 0.6
   \<and> extractSignalCategories analysis_b = [''INFRA'', ''PAYMENT'']
   \<and> extractSharedResources lib0 analysis_b
       = [(''ip'', ''203.0.113.7''), (''wallet'', ''bc1qar0srrr7xfkvy5l643lydnw9re59gtzzwf5mdq'')]
   \<and> calculateClusterSimilarity lib0 (snd (hd (Clusters first_engine))) analysis_b = c64 0.3
   \<and> AddDomainToCluster lib0 200 ''b.example'' analysis_b first_engine
       = Some (''87c411bab6aa'', second_engine)
   \<and> map (Domains \<circ> snd) (Clusters second_engine) = [[''a.example''], [''b.example'']]
   \<and> AddDomainToCluster lib0 200 ''c.example'' analysis_a first_engine
       = Some (''864aa0942b7b'', pair_engine)
   \<and> map (Domains \<circ> snd) (Clusters pair_engine) = [[''a.example'', ''c.example'']]
   \<and> AddDomainToCluster lib0 300 ''a.example'' analysis_m pair_engine
       = Some (''864aa0942b7b'', replaced_engine)
   \<and> map (Domains \<circ> snd) (Clusters replaced_engine) = [[''a.example'']]"
  by (simp only: first_add categories_a categories_b resources_a resources_b similarity_first_a
      similarity_first_b second_add_other_domain second_add_joining_domain readd_moved_origin)
    (simp add: first_engine_def second_engine_def pair_engine_def replaced_engine_def)

section \<open>Two domains with the same origin address\<close>

text \<open>
  The first term of the similarity is a finite number that is not negative, whatever the
  cluster stores.
\<close>

lemma signal_term_range:
  assumes "len < 2 ^ 63" "cnt \<le> len" "0 < len"
  shows "\<exists>t. fadd (Fin 0) (fmul (fdiv (float64 cnt) (float64 len)) (c64 0.4)) = Fin t
           \<and> 0 \<le> t \<and> t \<le> 2 ^ 70"
proof -
  have "cnt < 2 ^ 63" using assms(1,2) by linarith
  then obtain c where c: "float64 cnt = Fin c" "0 \<le> c" "c \<le> 2 ^ 64"
    using float64_range [of cnt] by blast
  obtain l where l: "float64 len = Fin l" "1 / 2 \<le> l"
    using float64_range [OF assms(1)] assms(3) by blast
  have l0: "0 < l" using l(2) by linarith
  have "c / l \<le> c / (1 / 2)"
    using c(2) l(2) l0 by (intro divide_left_mono) simp_all
  then have q: "c / l \<le> 2 ^ 65" "0 \<le> c / l"
    using l0 c(2,3) by simp_all
  then obtain q' where q': "round64 (c / l) = Fin q'" "0 \<le> q'" "q' \<le> 2 ^ 66"
    using round64_range [of "c / l"] by auto
  have div: "fdiv (float64 cnt) (float64 len) = Fin q'"
    using l0 by (simp add: c(1) l(1) q'(1))
  let ?w = "3602879701896397 / 9007199254740992 :: real"
  have "q' * ?w \<le> q' * 1"
    using q'(2) by (intro mult_left_mono) simp_all
  then have m: "q' * ?w \<le> 2 ^ 66" "0 \<le> q' * ?w"
    using q'(2,3) by simp_all
  then obtain m' where m': "round64 (q' * ?w) = Fin m'" "0 \<le> m'" "m' \<le> 2 ^ 67"
    using round64_range [of "q' * ?w"] by auto
  obtain t where t: "round64 m' = Fin t" "0 \<le> t" "t \<le> 2 ^ 70"
    using round64_range [of m'] m'(2,3) by auto
  have "fmul (Fin q') (c64 0.4) = Fin m'"
    using m'(1) by (simp add: c64_def roundings)
  then show ?thesis
    using t by (simp add: div)
qed

text \<open>When all resources of the analysis match, the second term is 0.6 and the sum at least 0.5.\<close>

lemma resource_term:
  assumes "n = 1 \<or> n = 2"
  shows "fmul (fdiv (float64 n) (float64 n)) (c64 0.6) = Fin (5404319552844595 / 9007199254740992)"
  using assms by (auto simp: float64_def c64_def roundings)

lemma similarity_sum_range:
  assumes "0 \<le> t" "t \<le> 2 ^ 70"
  shows "\<exists>y. fadd (Fin t) (Fin (5404319552844595 / 9007199254740992)) = Fin y \<and> 1 / 2 \<le> y"
proof -
  define x :: real where "x = t + 5404319552844595 / 9007199254740992"
  have x: "59 / 100 \<le> x" "0 \<le> x" "x \<le> 2 ^ 1000" using assms by (simp_all add: x_def)
  then obtain y where y: "round64 x = Fin y" "x - x / 2 ^ 53 - 1 / 2 ^ 1075 \<le> y"
    using round64_range [of x] by blast
  have "x / 2 ^ 53 \<le> x / 8"
    using x(2) by (intro divide_left_mono) simp_all
  moreover have "(1::real) / 2 ^ 1075 \<le> 1 / 100" by simp
  ultimately have "1 / 2 \<le> y" using y(2) x(1) by linarith
  then show ?thesis using y(1) by (simp add: x_def)
qed

lemma all_resources_match:
  assumes "\<forall>(k, v)\<in>set rs. map_of R k = Some v"
  shows "filter (\<lambda>(resType, resValue). case map_of R resType of
                    Some clusterRes \<Rightarrow> clusterRes = resValue | None \<Rightarrow> False) rs = rs"
  using assms by (intro filter_True) auto

lemma matching_resources_similarity:
  assumes "extractSharedResources L a \<noteq> []"
    and "\<forall>(k, v)\<in>set (extractSharedResources L a). map_of (SharedResources c) k = Some v"
    and "length (SharedSignals c) < 2 ^ 63"
  shows "\<exists>y. calculateClusterSimilarity L c a = Fin y \<and> 1 / 2 \<le> y"
proof -
  let ?rs = "extractSharedResources L a"
  let ?cnt = "length (filter (\<lambda>clusterSignal. matchesAny clusterSignal (extractSignalCategories a))
                        (SharedSignals c))"
  have "length ?rs \<noteq> 0" using assms(1) by simp
  then have n: "length ?rs = 1 \<or> length ?rs = 2"
    using resources_length [of L a] by linarith
  have res: "fmul (fdiv (float64 (length ?rs)) (float64 (length ?rs))) (c64 0.6)
      = Fin (5404319552844595 / 9007199254740992)"
    by (rule resource_term [OF n])
  have "\<exists>t. (if 0 < length (SharedSignals c)
              then fadd (Fin 0) (fmul (fdiv (float64 ?cnt) (float64 (length (SharedSignals c))))
                                   (c64 0.4))
              else Fin 0) = Fin t \<and> 0 \<le> t \<and> t \<le> 2 ^ 70"
  proof (cases "0 < length (SharedSignals c)")
    case True
    have "?cnt \<le> length (SharedSignals c)" by (rule length_filter_le)
    then show ?thesis
      using signal_term_range [OF assms(3) _ True, of ?cnt] True by simp
  next
    case False
    then show ?thesis by simp
  qed
  then obtain t where t: "(if 0 < length (SharedSignals c)
              then fadd (Fin 0) (fmul (fdiv (float64 ?cnt) (float64 (length (SharedSignals c))))
                                   (c64 0.4))
              else Fin 0) = Fin t" "0 \<le> t" "t \<le> 2 ^ 70"
    by blast
  obtain y where y: "fadd (Fin t) (Fin (5404319552844595 / 9007199254740992)) = Fin y" "1 / 2 \<le> y"
    using similarity_sum_range [OF t(2,3)] by blast
  have pos: "0 < length ?rs" using assms(1) by simp
  have "calculateClusterSimilarity L c a = Fin y"
    unfolding calculateClusterSimilarity_def Let_def all_resources_match [OF assms(2)] t(1) res
      y(1)
    using pos by (simp only: if_True)
  then show ?thesis using y(2) by blast
qed

text \<open>
  Claim C6, as the code has it. Two analyses hold the same INFRA signal, whose description
  contains "origin IP" and has a field that parses as an address, and every resource that the
  second analysis yields (the address of its last origin signal, its wallet) is a resource of
  the first, with the same value. Starting from the engine with no cluster (the first
  analysis having fewer than \<open>2\<^sup>6\<^sup>3\<close> signals, as a slice has, and the id generated for the first
  domain not being the empty string), the first call founds a cluster and the second call
  returns its id; that cluster then lists the two domains.
\<close>

theorem shared_origin_ip_same_cluster:
  assumes "s \<in> set (signalsOf a1)" and "s \<in> set (signalsOf a2)"
    and "Category s = ''INFRA''" and "Contains (Description s) ''origin IP''"
    and "extractIPFromDescription L (Description s) \<noteq> ''''"
    and "\<forall>(k, v)\<in>set (extractSharedResources L a2).
           map_of (extractSharedResources L a1) k = Some v"
    and "length (signalsOf a1) < 2 ^ 63"
    and "generateClusterID L d1 a1 \<noteq> ''''"
  shows "\<exists>ce1 ce2 c.
           AddDomainToCluster L t1 d1 a1 NewClusterEngine = Some (generateClusterID L d1 a1, ce1)
         \<and> AddDomainToCluster L t2 d2 a2 ce1 = Some (generateClusterID L d1 a1, ce2)
         \<and> map_of (Clusters ce2) (generateClusterID L d1 a1) = Some c
         \<and> Domains c = [d1, d2]"
proof -
  let ?id = "generateClusterID L d1 a1"
  let ?c1 = "founded L t1 d1 a1"
  let ?ce1 = "\<lparr>Clusters = [(?id, ?c1)]\<rparr>"
  have first: "AddDomainToCluster L t1 d1 a1 NewClusterEngine = Some (?id, ?ce1)"
    by (simp add: AddDomainToCluster_def findBestCluster_def NewClusterEngine_def Let_def
        founded_def)
  have r2: "extractSharedResources L a2 \<noteq> []"
    by (rule resources_nonempty [OF assms(2,3,4,5)])
  have "length (SharedSignals ?c1) \<le> length (signalsOf a1)"
    by (simp add: founded_def extractSharedSignals_def)
  then have len: "length (SharedSignals ?c1) < 2 ^ 63"
    using assms(7) by linarith
  have "\<forall>(k, v)\<in>set (extractSharedResources L a2). map_of (SharedResources ?c1) k = Some v"
    using assms(6) by (simp add: founded_def)
  then obtain y where y: "calculateClusterSimilarity L ?c1 a2 = Fin y" "1 / 2 \<le> y"
    using matching_resources_similarity [OF r2 _ len] by blast
  have "findBestLoop L a2 '''' (Fin 0) [(?id, ?c1)] = ?id"
    using y by (simp add: fgt_def Let_def c64_def roundings)
  then have best: "findBestCluster L ?ce1 a2 = ?id"
    by (simp add: findBestCluster_def)
  let ?c2 = "joined L t2 d2 a2 ?c1"
  have second: "AddDomainToCluster L t2 d2 a2 ?ce1 = Some (?id, \<lparr>Clusters = [(?id, ?c2)]\<rparr>)"
    using assms(8) by (simp add: AddDomainToCluster_def best Let_def joined_def)
  have "Domains ?c2 = [d1, d2]"
    by (simp add: joined_def updateSharedResources_def founded_def)
  then show ?thesis using first second by simp
qed

text \<open>
  The theorem at the origin signal of the scanner, for \<open>b.example\<close>, whose analysis has a wallet
  besides, and then \<open>a.example\<close>, whose analysis has the origin signal alone.
\<close>

theorem shared_origin_ip_same_cluster_witness:
  "\<exists>ce1 ce2 c.
     AddDomainToCluster lib0 100 ''b.example'' analysis_b NewClusterEngine
       = Some (generateClusterID lib0 ''b.example'' analysis_b, ce1)
     \<and> AddDomainToCluster lib0 200 ''a.example'' analysis_a ce1
       = Some (generateClusterID lib0 ''b.example'' analysis_b, ce2)
     \<and> map_of (Clusters ce2) (generateClusterID lib0 ''b.example'' analysis_b) = Some c
     \<and> Domains c = [''b.example'', ''a.example'']"
proof (rule shared_origin_ip_same_cluster [of origin_signal])
  show "origin_signal \<in> set (signalsOf analysis_b)" by (simp add: signals_b)
  show "origin_signal \<in> set (signalsOf analysis_a)" by (simp add: signals_a)
  show "Category origin_signal = ''INFRA''" by (simp add: origin_signal_def sig_def)
  show "Contains (Description origin_signal) ''origin IP''" by (rule origin_contains)
  show "extractIPFromDescription lib0 (Description origin_signal) \<noteq> ''''"
    by (simp add: origin_ip)
  show "\<forall>(k, v)\<in>set (extractSharedResources lib0 analysis_a).
          map_of (extractSharedResources lib0 analysis_b) k = Some v"
    by (simp add: resources_a resources_b)
  show "length (signalsOf analysis_b) < 2 ^ 63" by (simp add: signals_b)
  show "generateClusterID lib0 ''b.example'' analysis_b \<noteq> ''''"
    by (simp add: cluster_id_b)
qed

text \<open>
  Claim C6 as stated fails when the second analysis holds, after the shared origin signal, an
  origin signal of another address: the later address is the one extracted, it does not match
  the address of the cluster, the similarity is 0, and the second call founds a cluster of its
  own, under another id.
\<close>

theorem moved_origin_splits_clusters_counterexample:
  "origin_signal \<in> set (signalsOf analysis_a) \<and> origin_signal \<in> set (signalsOf analysis_c)
   \<and> Category origin_signal = ''INFRA'' \<and> Contains (Description origin_signal) ''origin IP''
   \<and> extractIPFromDescription lib0 (Description origin_signal) = ''203.0.113.7''
   \<and> fge (Confidence origin_signal) (c64 0.8)
   \<and> AddDomainToCluster lib0 100 ''a.example'' analysis_a NewClusterEngine
       = Some (''864aa0942b7b'', first_engine)
   \<and> calculateClusterSimilarity lib0 (snd (hd (Clusters first_engine))) analysis_c = Fin 0
   \<and> AddDomainToCluster lib0 200 ''b.example'' analysis_c first_engine
       = Some (''0dd4f8cde4a0'', split_engine)
   \<and> map (Domains \<circ> snd) (Clusters split_engine) = [[''a.example''], [''b.example'']]"
  by (simp add: signals_a signals_c origin_contains origin_ip first_add second_add_moved_origin
      similarity_first_c)
    (simp add: origin_signal_def sig_def split_engine_def c64_def roundings)

section \<open>A domain added twice\<close>

text \<open>
  Claim C10 fails on the code: a domain added twice with the same analysis joins the cluster
  it founded, and the cluster lists it twice.
\<close>

theorem readded_domain_listed_twice:
  "AddDomainToCluster lib0 100 ''a.example'' analysis_a NewClusterEngine
     = Some (''864aa0942b7b'', first_engine)
   \<and> AddDomainToCluster lib0 200 ''a.example'' analysis_a first_engine
     = Some (''864aa0942b7b'', twice_engine)
   \<and> map (Domains \<circ> snd) (Clusters twice_engine) = [[''a.example'', ''a.example'']]
   \<and> \<not> distinct (Domains (snd (hd (Clusters twice_engine))))"
  by (simp add: first_add second_add_same_domain) (simp add: twice_engine_def)

section \<open>MergeClusters\<close>

lemma appendMissing_fold:
  "\<exists>zs. foldl (\<lambda>acc x. if matchesAny x acc then acc else acc @ [x]) xs ys = xs @ zs
        \<and> distinct zs \<and> set zs = set ys - set xs"
proof (induction ys arbitrary: xs)
  case Nil
  show ?case by simp
next
  case (Cons y ys)
  let ?f = "\<lambda>acc x. if matchesAny x acc then acc else acc @ [x]"
  show ?case
  proof (cases "y \<in> set xs")
    case True
    from Cons.IH [of xs] obtain zs where zs:
      "foldl ?f xs ys = xs @ zs" "distinct zs" "set zs = set ys - set xs" by blast
    have "foldl ?f xs (y # ys) = xs @ zs"
      using True zs(1) by (simp add: matchesAny_iff)
    moreover have "set zs = set (y # ys) - set xs" using zs(3) True by auto
    ultimately show ?thesis using zs(2) by blast
  next
    case False
    from Cons.IH [of "xs @ [y]"] obtain zs where zs:
      "foldl ?f (xs @ [y]) ys = (xs @ [y]) @ zs"
      "distinct zs" "set zs = set ys - set (xs @ [y])" by blast
    have "foldl ?f xs (y # ys) = xs @ (y # zs)"
      using False zs(1) by (simp add: matchesAny_iff)
    moreover have "y \<notin> set zs" using zs(3) by simp
    then have "distinct (y # zs)" using zs(2) by simp
    moreover have "set (y # zs) = set (y # ys) - set xs" using zs(3) False by auto
    ultimately show ?thesis by blast
  qed
qed

lemma appendMissing_spec:
  "\<exists>zs. appendMissing xs ys = xs @ zs \<and> distinct zs \<and> set zs = set ys - set xs"
  unfolding appendMissing_def by (rule appendMissing_fold)

lemma appendMissing_set: "set (appendMissing xs ys) = set xs \<union> set ys"
proof -
  obtain zs where "appendMissing xs ys = xs @ zs" "set zs = set ys - set xs"
    using appendMissing_spec [of xs ys] by blast
  then show ?thesis by auto
qed

lemma appendMissing_distinct: "distinct xs \<Longrightarrow> distinct (appendMissing xs ys)"
proof -
  assume d: "distinct xs"
  obtain zs where "appendMissing xs ys = xs @ zs" "distinct zs" "set zs = set ys - set xs"
    using appendMissing_spec [of xs ys] by blast
  then show ?thesis using d by auto
qed

lemma merge_resources_lookup:
  "map_of (foldl (\<lambda>resources (resType, resValue). AList.update resType resValue resources) r1 r2) k
     = (case map_of (rev r2) k of Some v \<Rightarrow> Some v | None \<Rightarrow> map_of r1 k)"
proof (induction r2 arbitrary: r1)
  case Nil
  show ?case by simp
next
  case (Cons p r2)
  obtain k' v' where p: "p = (k', v')" by (cases p)
  show ?case
    by (simp add: p Cons.IH update_conv' map_add_def split: option.splits)
qed

lemma map_of_rev_distinct: "distinct (map fst xs) \<Longrightarrow> map_of (rev xs) k = map_of xs k"
proof (induction xs)
  case Nil
  show ?case by simp
next
  case (Cons p xs)
  obtain a b where p: "p = (a, b)" by (cases p)
  have "a \<notin> fst ` set xs" using Cons.prems by (simp add: p image_iff)
  then have "map_of xs a = None" by (simp add: map_of_eq_None_iff)
  then show ?case using Cons by (simp add: p map_add_def split: option.splits)
qed

lemma merge_resources:
  assumes "distinct (map fst r2)"
  shows "map_of (foldl (\<lambda>resources (resType, resValue). AList.update resType resValue resources)
            r1 r2) = map_of r1 ++ map_of r2"
  by (rule ext) (simp add: merge_resources_lookup map_of_rev_distinct [OF assms] map_add_def)

lemma third_add:
  "AddDomainToCluster lib0 200 ''b.example'' analysis_b twice_engine
     = Some (''87c411bab6aa'', three_adds_engine)"
proof -
  have "calculateClusterSimilarity lib0 (snd (hd (Clusters twice_engine))) analysis_b = c64 0.3"
    by (simp add: calculateClusterSimilarity_def Let_def twice_engine_def categories_b
        resources_b float64_def c64_def roundings)
  then have "findBestCluster lib0 twice_engine analysis_b = ''''"
    by (simp add: findBestCluster_def twice_engine_def Let_def fgt_def c64_def roundings)
  then show ?thesis
    by (simp add: AddDomainToCluster_def Let_def cluster_id_b shared_signals_b resources_b)
      (simp add: twice_engine_def three_adds_engine_def second_engine_def)
qed

text \<open>
  The mean of two confidences as \<^verbatim>\<open>MergeClusters\<close> computes it: the sum is rounded, then the
  half of it.
\<close>

lemma mean_bound_sum:
  fixes A B t T :: real
  assumes "A + A / 2 \<le> B" "t + t + t / 2 \<le> T"
  shows "A + t + t + (A + t) / 2 \<le> B + T"
  using assms by (simp add: add_divide_distrib)

lemma mean_close:
  assumes "\<bar>x + y\<bar> \<le> 2 ^ 1000"
  shows "\<exists>z. fdiv (fadd (Fin x) (Fin y)) (Fin 2) = Fin z
           \<and> \<bar>z - (x + y) / 2\<bar> \<le> \<bar>x + y\<bar> / 2 ^ 52 + 1 / 2 ^ 1073"
proof -
  define a where "a = \<bar>x + y\<bar>"
  have a0: "0 \<le> a" by (simp add: a_def)
  have "(2::real) ^ 1000 \<le> 2 ^ 1023" by simp
  then have "\<bar>x + y\<bar> \<le> 2 ^ 1023" using assms by linarith
  then obtain s where s: "round64 (x + y) = Fin s" "\<bar>s - (x + y)\<bar> \<le> a / 2 ^ 53 + 1 / 2 ^ 1075"
    using round64_close [of "x + y"] unfolding a_def by blast
  have "a / 2 ^ 53 \<le> a" using a0 by (simp add: field_simps)
  then have sa: "\<bar>s\<bar> \<le> 2 * a + 1 / 2 ^ 1075" using s(2) a_def by linarith
  have "(2::real) * 2 ^ 1000 + 1 / 2 ^ 1075 \<le> 2 * 2 ^ 1023" by simp
  moreover have "a \<le> 2 ^ 1000" using assms by (simp add: a_def)
  ultimately have "\<bar>s / 2\<bar> \<le> 2 ^ 1023" using sa by simp
  then obtain z where z: "round64 (s / 2) = Fin z"
      "\<bar>z - s / 2\<bar> \<le> \<bar>s / 2\<bar> / 2 ^ 53 + 1 / 2 ^ 1075"
    using round64_close [of "s / 2"] by blast
  define d1 where "d1 = \<bar>s - (x + y)\<bar>"
  define d2 where "d2 = \<bar>z - s / 2\<bar>"
  define hh where "hh = \<bar>s / 2\<bar> / 2 ^ 53"
  have "hh = \<bar>s\<bar> / 2 ^ 54" by (simp add: hh_def)
  also have "\<dots> \<le> (2 * a + 1 / 2 ^ 1075) / 2 ^ 54"
    using sa by (intro divide_right_mono) simp_all
  finally have f3: "hh \<le> a / 2 ^ 53 + 1 / 2 ^ 1075" by simp
  have f1: "d1 \<le> a / 2 ^ 53 + 1 / 2 ^ 1075" using s(2) by (simp add: d1_def)
  have f2: "d2 \<le> hh + 1 / 2 ^ 1075" using z(2) by (simp add: d2_def hh_def)
  have "\<bar>s / 2 - (x + y) / 2\<bar> = \<bar>(s - (x + y)) / 2\<bar>"
    by (simp only: diff_divide_distrib)
  then have e: "\<bar>s / 2 - (x + y) / 2\<bar> = d1 / 2" by (simp add: d1_def)
  have "\<bar>z - (x + y) / 2\<bar> \<le> \<bar>z - s / 2\<bar> + \<bar>s / 2 - (x + y) / 2\<bar>" by linarith
  then have "\<bar>z - (x + y) / 2\<bar> \<le> d2 + d1 / 2" by (simp only: e d2_def)
  also have "\<dots> \<le> (a / 2 ^ 53 + 1 / 2 ^ 1075 + 1 / 2 ^ 1075) + (a / 2 ^ 53 + 1 / 2 ^ 1075) / 2"
    using f1 f2 f3 by (intro add_mono divide_right_mono) simp_all
  also have "\<dots> \<le> a / 2 ^ 52 + 1 / 2 ^ 1073"
  proof -
    have "a / 2 ^ 53 + a / 2 ^ 53 / 2 \<le> a / 2 ^ 52" using a0 by simp
    moreover have "(1::real) / 2 ^ 1075 + 1 / 2 ^ 1075 + 1 / 2 ^ 1075 / 2 \<le> 1 / 2 ^ 1073" by simp
    ultimately show ?thesis by (rule mean_bound_sum)
  qed
  finally have "\<bar>z - (x + y) / 2\<bar> \<le> \<bar>x + y\<bar> / 2 ^ 52 + 1 / 2 ^ 1073" by (simp add: a_def)
  then show ?thesis using s(1) z(1) by simp
qed

text \<open>
  Claim C7, as the code has it. When both ids are keys and differ (the resources of the second
  cluster having distinct keys, as a Go map has), \<^verbatim>\<open>MergeClusters\<close> returns no error, removes the
  second id and leaves every other entry but the first; the first cluster keeps its domains
  and gets after them, once each, the domains of the second that it did not have, so that its
  domains are the union of the two as a set and are distinct when they were; likewise for the
  shared signals; a resource key reads as in the second cluster where that has it and as in
  the first otherwise; the confidence is the float64 mean of the two confidences, the rounded
  sum halved, which is the mean itself when the sum and its half are binary64 numbers and is
  within \<open>2\<^sup>-\<^sup>5\<^sup>2\<close> of the sum (and \<open>2\<^sup>-\<^sup>1\<^sup>0\<^sup>7\<^sup>3\<close>) of the mean for all finite confidences whose sum
  does not exceed \<open>2\<^sup>1\<^sup>0\<^sup>0\<^sup>0\<close>; the last-seen time is the later one. When one of the ids is not
  a key the call returns the error and the engine as it was.
\<close>

theorem merge_clusters_effect:
  "(map_of (Clusters ce) a = Some c1 \<and> map_of (Clusters ce) b = Some c2 \<and> a \<noteq> b
      \<and> distinct (map fst (SharedResources c2)) \<longrightarrow>
     (\<exists>m ce'. MergeClusters a b ce = (None, ce')
        \<and> map_of (Clusters ce') a = Some m
        \<and> map_of (Clusters ce') b = None
        \<and> (\<forall>k. k \<noteq> a \<and> k \<noteq> b \<longrightarrow> map_of (Clusters ce') k = map_of (Clusters ce) k)
        \<and> set (Domains m) = set (Domains c1) \<union> set (Domains c2)
        \<and> (\<exists>zs. Domains m = Domains c1 @ zs \<and> distinct zs
                \<and> set zs = set (Domains c2) - set (Domains c1))
        \<and> (distinct (Domains c1) \<longrightarrow> distinct (Domains m))
        \<and> set (SharedSignals m) = set (SharedSignals c1) \<union> set (SharedSignals c2)
        \<and> (\<exists>zs. SharedSignals m = SharedSignals c1 @ zs \<and> distinct zs
                \<and> set zs = set (SharedSignals c2) - set (SharedSignals c1))
        \<and> map_of (SharedResources m) = map_of (SharedResources c1) ++ map_of (SharedResources c2)
        \<and> Cluster_Confidence m
            = fdiv (fadd (Cluster_Confidence c1) (Cluster_Confidence c2)) (Fin 2)
        \<and> (\<forall>x y. Cluster_Confidence c1 = Fin x \<and> Cluster_Confidence c2 = Fin y
               \<and> round64 (x + y) = Fin (x + y) \<and> round64 ((x + y) / 2) = Fin ((x + y) / 2) \<longrightarrow>
               Cluster_Confidence m = Fin ((x + y) / 2))
        \<and> (\<forall>x y. Cluster_Confidence c1 = Fin x \<and> Cluster_Confidence c2 = Fin y
               \<and> \<bar>x + y\<bar> \<le> 2 ^ 1000 \<longrightarrow>
               (\<exists>z. Cluster_Confidence m = Fin z
                  \<and> \<bar>z - (x + y) / 2\<bar> \<le> \<bar>x + y\<bar> / 2 ^ 52 + 1 / 2 ^ 1073))
        \<and> Cluster_LastSeen m = max (Cluster_LastSeen c1) (Cluster_LastSeen c2)
        \<and> ID m = ID c1 \<and> Cluster_FirstSeen m = Cluster_FirstSeen c1))
   \<and> (map_of (Clusters ce) a = None \<or> map_of (Clusters ce) b = None \<longrightarrow>
        MergeClusters a b ce = (Some ClustersDoNotExist, ce))"
proof (intro conjI impI)
  assume h: "map_of (Clusters ce) a = Some c1 \<and> map_of (Clusters ce) b = Some c2 \<and> a \<noteq> b
      \<and> distinct (map fst (SharedResources c2))"
  define m where "m = c1
     \<lparr>Domains := appendMissing (Domains c1) (Domains c2),
      SharedSignals := appendMissing (SharedSignals c1) (SharedSignals c2),
      SharedResources :=
        foldl (\<lambda>resources (resType, resValue). AList.update resType resValue resources)
          (SharedResources c1) (SharedResources c2),
      Cluster_Confidence := fdiv (fadd (Cluster_Confidence c1) (Cluster_Confidence c2)) (Fin 2),
      Cluster_LastSeen := (if Cluster_LastSeen c1 < Cluster_LastSeen c2
                           then Cluster_LastSeen c2 else Cluster_LastSeen c1)\<rparr>"
  define ce' where "ce' = ce\<lparr>Clusters := AList.delete b (AList.update a m (Clusters ce))\<rparr>"
  have 1: "MergeClusters a b ce = (None, ce')"
    using h by (simp add: MergeClusters_def Let_def m_def ce'_def)
  have 2: "map_of (Clusters ce') a = Some m"
    using h by (simp add: ce'_def delete_conv' update_conv')
  have 3: "map_of (Clusters ce') b = None"
    by (simp add: ce'_def delete_conv')
  have 4: "\<forall>k. k \<noteq> a \<and> k \<noteq> b \<longrightarrow> map_of (Clusters ce') k = map_of (Clusters ce) k"
    by (simp add: ce'_def delete_conv' update_conv')
  have 5: "set (Domains m) = set (Domains c1) \<union> set (Domains c2)"
    by (simp add: m_def appendMissing_set)
  have 6: "\<exists>zs. Domains m = Domains c1 @ zs \<and> distinct zs
                \<and> set zs = set (Domains c2) - set (Domains c1)"
    using appendMissing_spec [of "Domains c1" "Domains c2"] by (simp add: m_def)
  have 7: "distinct (Domains c1) \<longrightarrow> distinct (Domains m)"
    by (simp add: m_def appendMissing_distinct)
  have 8: "set (SharedSignals m) = set (SharedSignals c1) \<union> set (SharedSignals c2)"
    by (simp add: m_def appendMissing_set)
  have 9: "\<exists>zs. SharedSignals m = SharedSignals c1 @ zs \<and> distinct zs
                \<and> set zs = set (SharedSignals c2) - set (SharedSignals c1)"
    using appendMissing_spec [of "SharedSignals c1" "SharedSignals c2"] by (simp add: m_def)
  have 10: "map_of (SharedResources m) = map_of (SharedResources c1) ++ map_of (SharedResources c2)"
    using h by (simp add: m_def merge_resources)
  have 11: "Cluster_Confidence m
            = fdiv (fadd (Cluster_Confidence c1) (Cluster_Confidence c2)) (Fin 2)"
    by (simp add: m_def)
  have A11: "\<forall>x y. Cluster_Confidence c1 = Fin x \<and> Cluster_Confidence c2 = Fin y
               \<and> round64 (x + y) = Fin (x + y) \<and> round64 ((x + y) / 2) = Fin ((x + y) / 2) \<longrightarrow>
               Cluster_Confidence m = Fin ((x + y) / 2)"
    by (simp add: 11)
  have B11: "\<forall>x y. Cluster_Confidence c1 = Fin x \<and> Cluster_Confidence c2 = Fin y
               \<and> \<bar>x + y\<bar> \<le> 2 ^ 1000 \<longrightarrow>
               (\<exists>z. Cluster_Confidence m = Fin z
                  \<and> \<bar>z - (x + y) / 2\<bar> \<le> \<bar>x + y\<bar> / 2 ^ 52 + 1 / 2 ^ 1073)"
  proof (intro allI impI)
    fix x y
    assume "Cluster_Confidence c1 = Fin x \<and> Cluster_Confidence c2 = Fin y \<and> \<bar>x + y\<bar> \<le> 2 ^ 1000"
    then show "\<exists>z. Cluster_Confidence m = Fin z
                  \<and> \<bar>z - (x + y) / 2\<bar> \<le> \<bar>x + y\<bar> / 2 ^ 52 + 1 / 2 ^ 1073"
      using mean_close [of x y] by (simp add: 11)
  qed
  have 12: "Cluster_LastSeen m = max (Cluster_LastSeen c1) (Cluster_LastSeen c2)"
    by (simp add: m_def max_def)
  have 13: "ID m = ID c1 \<and> Cluster_FirstSeen m = Cluster_FirstSeen c1"
    by (simp add: m_def)
  show "\<exists>m ce'. MergeClusters a b ce = (None, ce')
        \<and> map_of (Clusters ce') a = Some m
        \<and> map_of (Clusters ce') b = None
        \<and> (\<forall>k. k \<noteq> a \<and> k \<noteq> b \<longrightarrow> map_of (Clusters ce') k = map_of (Clusters ce) k)
        \<and> set (Domains m) = set (Domains c1) \<union> set (Domains c2)
        \<and> (\<exists>zs. Domains m = Domains c1 @ zs \<and> distinct zs
                \<and> set zs = set (Domains c2) - set (Domains c1))
        \<and> (distinct (Domains c1) \<longrightarrow> distinct (Domains m))
        \<and> set (SharedSignals m) = set (SharedSignals c1) \<union> set (SharedSignals c2)
        \<and> (\<exists>zs. SharedSignals m = SharedSignals c1 @ zs \<and> distinct zs
                \<and> set zs = set (SharedSignals c2) - set (SharedSignals c1))
        \<and> map_of (SharedResources m) = map_of (SharedResources c1) ++ map_of (SharedResources c2)
        \<and> Cluster_Confidence m
            = fdiv (fadd (Cluster_Confidence c1) (Cluster_Confidence c2)) (Fin 2)
        \<and> (\<forall>x y. Cluster_Confidence c1 = Fin x \<and> Cluster_Confidence c2 = Fin y
               \<and> round64 (x + y) = Fin (x + y) \<and> round64 ((x + y) / 2) = Fin ((x + y) / 2) \<longrightarrow>
               Cluster_Confidence m = Fin ((x + y) / 2))
        \<and> (\<forall>x y. Cluster_Confidence c1 = Fin x \<and> Cluster_Confidence c2 = Fin y
               \<and> \<bar>x + y\<bar> \<le> 2 ^ 1000 \<longrightarrow>
               (\<exists>z. Cluster_Confidence m = Fin z
                  \<and> \<bar>z - (x + y) / 2\<bar> \<le> \<bar>x + y\<bar> / 2 ^ 52 + 1 / 2 ^ 1073))
        \<and> Cluster_LastSeen m = max (Cluster_LastSeen c1) (Cluster_LastSeen c2)
        \<and> ID m = ID c1 \<and> Cluster_FirstSeen m = Cluster_FirstSeen c1"
    by (rule exI [of _ m], rule exI [of _ ce'])
       (rule conjI [OF 1 conjI [OF 2 conjI [OF 3 conjI [OF 4 conjI [OF 5 conjI [OF 6
          conjI [OF 7 conjI [OF 8 conjI [OF 9 conjI [OF 10 conjI [OF 11 conjI [OF A11
          conjI [OF B11 conjI [OF 12 13]]]]]]]]]]]]]])
next
  assume "map_of (Clusters ce) a = None \<or> map_of (Clusters ce) b = None"
  then show "MergeClusters a b ce = (Some ClustersDoNotExist, ce)"
    by (auto simp: MergeClusters_def split: option.splits)
qed

text \<open>
  The theorem at the engine with the clusters of a.example and b.example, and at an unknown id.
\<close>

theorem merge_clusters_effect_witness:
  "map_of (Clusters second_engine) ''864aa0942b7b'' = Some (snd (hd (Clusters second_engine)))
   \<and> map_of (Clusters second_engine) ''87c411bab6aa''
       = Some (snd (hd (tl (Clusters second_engine))))
   \<and> ''864aa0942b7b'' \<noteq> ''87c411bab6aa''
   \<and> distinct (map fst (SharedResources (snd (hd (tl (Clusters second_engine))))))
   \<and> (\<exists>m ce'. MergeClusters ''864aa0942b7b'' ''87c411bab6aa'' second_engine = (None, ce')
         \<and> map_of (Clusters ce') ''864aa0942b7b'' = Some m
         \<and> map_of (Clusters ce') ''87c411bab6aa'' = None
         \<and> set (Domains m) = {''a.example'', ''b.example''}
         \<and> Cluster_Confidence m = Fin 1
         \<and> Cluster_LastSeen m = 200)
   \<and> map_of (Clusters second_engine) ''000000000000'' = None
   \<and> MergeClusters ''000000000000'' ''87c411bab6aa'' second_engine
       = (Some ClustersDoNotExist, second_engine)"
proof -
  let ?a = "''864aa0942b7b''" and ?b = "''87c411bab6aa''"
  let ?c1 = "snd (hd (Clusters second_engine))"
  let ?c2 = "snd (hd (tl (Clusters second_engine)))"
  have h1: "map_of (Clusters second_engine) ?a = Some ?c1"
    and h2: "map_of (Clusters second_engine) ?b = Some ?c2"
    and h3: "?a \<noteq> ?b"
    and h4: "distinct (map fst (SharedResources ?c2))"
    and h5: "map_of (Clusters second_engine) ''000000000000'' = None"
    by (simp_all add: second_engine_def)
  note T = merge_clusters_effect [where ce = second_engine and a = ?a and b = ?b
      and ?c1.0 = ?c1 and ?c2.0 = ?c2]
  from mp [OF conjunct1 [OF T] conjI [OF h1 conjI [OF h2 conjI [OF h3 h4]]]]
  obtain m ce' where m: "MergeClusters ?a ?b second_engine = (None, ce')"
    "map_of (Clusters ce') ?a = Some m" "map_of (Clusters ce') ?b = None"
    "set (Domains m) = set (Domains ?c1) \<union> set (Domains ?c2)"
    "Cluster_Confidence m = fdiv (fadd (Cluster_Confidence ?c1) (Cluster_Confidence ?c2)) (Fin 2)"
    "Cluster_LastSeen m = max (Cluster_LastSeen ?c1) (Cluster_LastSeen ?c2)"
    by blast
  have d: "set (Domains m) = {''a.example'', ''b.example''}"
    using m(4) by (auto simp: second_engine_def)
  have c: "Cluster_Confidence m = Fin 1"
    using m(5) by (simp add: second_engine_def roundings)
  have l: "Cluster_LastSeen m = 200"
    using m(6) by (simp add: second_engine_def)
  have A: "\<exists>m ce'. MergeClusters ?a ?b second_engine = (None, ce')
         \<and> map_of (Clusters ce') ?a = Some m
         \<and> map_of (Clusters ce') ?b = None
         \<and> set (Domains m) = {''a.example'', ''b.example''}
         \<and> Cluster_Confidence m = Fin 1
         \<and> Cluster_LastSeen m = 200"
    using m(1,2,3) d c l by blast
  have B: "MergeClusters ''000000000000'' ?b second_engine
       = (Some ClustersDoNotExist, second_engine)"
    using merge_clusters_effect [where ce = second_engine and a = "''000000000000''"
        and b = ?b and ?c1.0 = ?c1 and ?c2.0 = ?c2] h5 by blast
  show ?thesis
    by (rule conjI [OF h1 conjI [OF h2 conjI [OF h3 conjI [OF h4 conjI [OF A conjI [OF h5 B]]]]]])
qed

text \<open>
  Claim C7 as stated fails in two places. Merging a cluster with itself deletes it, so no
  merged cluster is left under the first id. And the first cluster's own duplicates stay:
  after a.example is added twice and b.example once, the merged list is a.example, a.example,
  b.example.
\<close>

theorem merge_self_and_duplicates_counterexample:
  "MergeClusters ''864aa0942b7b'' ''864aa0942b7b'' first_engine = (None, \<lparr>Clusters = []\<rparr>)
   \<and> AddDomainToCluster lib0 100 ''a.example'' analysis_a NewClusterEngine
       = Some (''864aa0942b7b'', first_engine)
   \<and> AddDomainToCluster lib0 200 ''a.example'' analysis_a first_engine
       = Some (''864aa0942b7b'', twice_engine)
   \<and> AddDomainToCluster lib0 200 ''b.example'' analysis_b twice_engine
       = Some (''87c411bab6aa'', three_adds_engine)
   \<and> map (Domains \<circ> snd)
         (Clusters (snd (MergeClusters ''864aa0942b7b'' ''87c411bab6aa'' three_adds_engine)))
       = [[''a.example'', ''a.example'', ''b.example'']]"
proof -
  have 1: "MergeClusters ''864aa0942b7b'' ''864aa0942b7b'' first_engine = (None, \<lparr>Clusters = []\<rparr>)"
    by (simp add: MergeClusters_def first_engine_def Let_def)
  have 2: "map (Domains \<circ> snd)
         (Clusters (snd (MergeClusters ''864aa0942b7b'' ''87c411bab6aa'' three_adds_engine)))
       = [[''a.example'', ''a.example'', ''b.example'']]"
    by (simp add: MergeClusters_def three_adds_engine_def twice_engine_def second_engine_def
        Let_def appendMissing_def)
  show ?thesis
    by (rule conjI [OF 1 conjI [OF first_add conjI [OF second_add_same_domain
          conjI [OF third_add 2]]]])
qed

section \<open>Unknown ids\<close>

text \<open>
  Claim C8, as the code has it. \<^verbatim>\<open>MergeClusters\<close> with an id that is not a key returns the error
  and the engine as it was; on a domain that is not monitored, \<^verbatim>\<open>RemoveDomain\<close>,
  \<^verbatim>\<open>PauseMonitoring\<close> and \<^verbatim>\<open>ResumeMonitoring\<close> return the error and the registry as it was, and
  \<^verbatim>\<open>GetDomainStatus\<close> and \<^verbatim>\<open>GetChanges\<close> return the error; \<^verbatim>\<open>UpdateClusterConfidence\<close> with an
  id that is not a key leaves the engine as it was, and has no result in which to report
  anything; \<^verbatim>\<open>GetCluster\<close> reports the missing id.
\<close>

theorem unknown_ids_leave_state:
  "(map_of (Clusters ce) a = None \<or> map_of (Clusters ce) b = None \<longrightarrow>
      MergeClusters a b ce = (Some ClustersDoNotExist, ce))
   \<and> (map_of (domains m) d = None \<longrightarrow>
        RemoveDomain d m = (Some (NotMonitored d), m)
        \<and> PauseMonitoring d m = (Some (NotMonitored d), m)
        \<and> ResumeMonitoring d m = (Some (NotMonitored d), m)
        \<and> GetDomainStatus d m = Inl (NotMonitored d)
        \<and> GetChanges d m = Inl (NotMonitored d))
   \<and> (map_of (Clusters ce) c = None \<longrightarrow>
        UpdateClusterConfidence c ce = ce \<and> GetCluster ce c = None)"
proof (intro conjI impI)
  assume "map_of (Clusters ce) a = None \<or> map_of (Clusters ce) b = None"
  then show "MergeClusters a b ce = (Some ClustersDoNotExist, ce)"
    by (auto simp: MergeClusters_def split: option.splits)
qed (simp_all add: RemoveDomain_def PauseMonitoring_def ResumeMonitoring_def
      GetDomainStatus_def GetChanges_def UpdateClusterConfidence_def GetCluster_def)

text \<open>
  The theorem at an engine with one cluster and at the monitor with no domain.
\<close>

theorem unknown_ids_leave_state_witness:
  "map_of (Clusters first_engine) ''000000000000'' = None
   \<and> MergeClusters ''864aa0942b7b'' ''000000000000'' first_engine
       = (Some ClustersDoNotExist, first_engine)
   \<and> map_of (domains NewMonitor) ''a.example'' = None
   \<and> RemoveDomain ''a.example'' NewMonitor = (Some (NotMonitored ''a.example''), NewMonitor)
   \<and> GetChanges ''a.example'' NewMonitor = Inl (NotMonitored ''a.example'')
   \<and> UpdateClusterConfidence ''000000000000'' first_engine = first_engine"
proof -
  have h: "map_of (Clusters first_engine) ''000000000000'' = None"
    by (simp add: first_engine_def)
  have g: "map_of (domains NewMonitor) ''a.example'' = None"
    by (simp add: NewMonitor_def)
  note T = unknown_ids_leave_state [where ce = first_engine and a = "''864aa0942b7b''"
      and b = "''000000000000''" and m = NewMonitor and d = "''a.example''"
      and c = "''000000000000''"]
  show ?thesis using h g T by blast
qed

text \<open>
  Claim C8 as stated fails for \<^verbatim>\<open>UpdateClusterConfidence\<close>: the call returns nothing, and what
  it leaves for an unknown id is what it leaves for the id of a cluster whose confidence is
  already the computed one. The caller is told nothing.
\<close>

theorem update_confidence_silent_counterexample:
  "map_of (Clusters example_engine) ''000000000000'' = None
   \<and> UpdateClusterConfidence ''000000000000'' example_engine = example_engine
   \<and> map_of (Clusters example_engine) ''864aa0942b7b'' = Some example_cluster
   \<and> UpdateClusterConfidence ''864aa0942b7b'' example_engine = example_engine"
  by (simp add: UpdateClusterConfidence_def example_engine_def example_cluster_def Let_def
      float64_def fgt_def c64_def roundings)

section \<open>The tick of the monitor\<close>

lemma old_signals_lookup:
  "map_of (foldl (\<lambda>old signal. AList.update (SignalID signal) signal old) m sigs) k = None
     \<longleftrightarrow> map_of m k = None \<and> k \<notin> SignalID ` set sigs"
  by (induction sigs arbitrary: m) (auto simp: update_conv')

lemma score_jump_iff:
  "fgt d (c64 0.1) \<or> flt d (fneg (c64 0.1)) \<longleftrightarrow> fgt (fabs d) (c64 0.1)"
proof -
  have t: "c64 0.1 = Fin (3602879701896397 / 36028797018963968)"
    by (simp add: c64_def roundings)
  show ?thesis unfolding t by (cases d) (auto simp: fgt_def)
qed

lemma detectChanges_nonempty:
  "0 < length (detectChanges L old new) \<longleftrightarrow>
     fgt (fabs (fsub (Result_JLIScore new) (Result_JLIScore old))) (c64 0.1)
     \<or> (\<exists>s\<in>set (signalsOf new). SignalID s \<notin> SignalID ` set (signalsOf old))"
proof -
  have "filter (\<lambda>newSignal. map_of (foldl (\<lambda>old signal. AList.update (SignalID signal) signal old)
            [] (signalsOf old)) (SignalID newSignal) = None) (signalsOf new) \<noteq> []
      \<longleftrightarrow> (\<exists>s\<in>set (signalsOf new). SignalID s \<notin> SignalID ` set (signalsOf old))"
    by (simp add: filter_empty_conv old_signals_lookup)
  then show ?thesis
    unfolding detectChanges_def Let_def score_jump_iff by auto
qed

text \<open>
  Claim C9. The tick of an active monitor that has a last result scans the domain, stores the
  new result as the last one and goes on; it appends one change record, with the old and the
  new score, exactly when the absolute difference of the two scores exceeds 0.1 or the new
  result has a signal whose id the old result has not. The difference is the float64
  difference of the two scores and 0.1 its binary64 value. The tick of a monitor that is not
  active returns from the loop before any scan and changes nothing.
\<close>

theorem tick_records_change:
  "(Active monitor \<and> LastResult monitor = Some old \<and> analyze (Monitor_Domain monitor) = new \<longrightarrow>
      (\<exists>monitor'. tick L now analyze monitor = (Looping, monitor')
           \<and> LastResult monitor' = Some new
           \<and> (if fgt (fabs (fsub (Result_JLIScore new) (Result_JLIScore old))) (c64 0.1)
                  \<or> (\<exists>s\<in>set (signalsOf new). SignalID s \<notin> SignalID ` set (signalsOf old))
               then \<exists>change. Changes monitor' = Changes monitor @ [change]
                      \<and> OldScore change = Result_JLIScore old
                      \<and> NewScore change = Result_JLIScore new
                      \<and> Change_Timestamp change = now
                      \<and> Change_Signals change = detectChanges L old new
               else Changes monitor' = Changes monitor)))
   \<and> (\<not> Active monitor \<longrightarrow> tick L now analyze monitor = (Returned, monitor))"
proof (intro conjI impI)
  assume "\<not> Active monitor"
  then show "tick L now analyze monitor = (Returned, monitor)" by (simp add: tick_def)
next
  assume "Active monitor \<and> LastResult monitor = Some old \<and> analyze (Monitor_Domain monitor) = new"
  then have assms: "Active monitor" "LastResult monitor = Some old"
      "analyze (Monitor_Domain monitor) = new"
    by simp_all
  show "\<exists>monitor'. tick L now analyze monitor = (Looping, monitor')
           \<and> LastResult monitor' = Some new
           \<and> (if fgt (fabs (fsub (Result_JLIScore new) (Result_JLIScore old))) (c64 0.1)
                  \<or> (\<exists>s\<in>set (signalsOf new). SignalID s \<notin> SignalID ` set (signalsOf old))
               then \<exists>change. Changes monitor' = Changes monitor @ [change]
                      \<and> OldScore change = Result_JLIScore old
                      \<and> NewScore change = Result_JLIScore new
                      \<and> Change_Timestamp change = now
                      \<and> Change_Signals change = detectChanges L old new
               else Changes monitor' = Changes monitor)"
  proof -
  let ?changed = "fgt (fabs (fsub (Result_JLIScore new) (Result_JLIScore old))) (c64 0.1)
                  \<or> (\<exists>s\<in>set (signalsOf new). SignalID s \<notin> SignalID ` set (signalsOf old))"
  have c: "?changed \<longleftrightarrow> 0 < length (detectChanges L old new)"
    by (rule detectChanges_nonempty [symmetric])
  show ?thesis
  proof (cases ?changed)
    case True
    then have "0 < length (detectChanges L old new)" using c by blast
    then have "tick L now analyze monitor =
       (Looping, monitor\<lparr>Changes := Changes monitor @
            [\<lparr>Change_Timestamp = now, OldScore = Result_JLIScore old,
              NewScore = Result_JLIScore new,
              Reason = itoa (length (detectChanges L old new)) @ '' changes detected'',
              Change_Signals = detectChanges L old new\<rparr>],
          LastResult := Some new\<rparr>)"
      using assms by (simp add: tick_def Let_def)
    then show ?thesis using True by simp
  next
    case False
    then have "\<not> 0 < length (detectChanges L old new)" using c by blast
    then have "tick L now analyze monitor = (Looping, monitor\<lparr>LastResult := Some new\<rparr>)"
      using assms by (simp add: tick_def Let_def)
    then show ?thesis using False by simp
  qed
qed
qed

text \<open>
  The theorem at a monitor of \<open>a.example\<close> whose last result has the score 0.7. A scan of the
  same signals with the score 0.8 is recorded: the float64 difference of 0.8 and 0.7 is
  0.10000000000000009, above the binary64 value of 0.1. A scan with the score 0.6 is not: the
  float64 difference of 0.6 and 0.7 is -0.09999999999999998.
\<close>

theorem tick_records_change_witness:
  "Active example_monitor
   \<and> LastResult example_monitor = Some (analysisOf ''a.example'' (c64 0.7) [origin_signal])
   \<and> fsub (c64 0.8) (c64 0.7) = Fin (225179981368525 / 2251799813685248)
   \<and> (\<exists>monitor' change. tick lib0 300 example_scan example_monitor = (Looping, monitor')
         \<and> LastResult monitor' = Some (example_scan ''a.example'')
         \<and> Changes monitor' = Changes example_monitor @ [change]
         \<and> OldScore change = c64 0.7 \<and> NewScore change = c64 0.8)
   \<and> fsub (c64 0.6) (c64 0.7) = Fin (- (900719925474099 / 9007199254740992))
   \<and> (\<exists>monitor'. tick lib0 300 lower_scan example_monitor = (Looping, monitor')
         \<and> LastResult monitor' = Some (lower_scan ''a.example'')
         \<and> Changes monitor' = Changes example_monitor)"
proof -
  let ?old = "analysisOf ''a.example'' (c64 0.7) [origin_signal]"
  let ?up = "example_scan ''a.example''"
  let ?down = "lower_scan ''a.example''"
  have a: "Active example_monitor" and l: "LastResult example_monitor = Some ?old"
    and u: "example_scan (Monitor_Domain example_monitor) = ?up"
    and d: "lower_scan (Monitor_Domain example_monitor) = ?down"
    by (simp_all add: example_monitor_def)
  have du: "fsub (c64 0.8) (c64 0.7) = Fin (225179981368525 / 2251799813685248)"
    by (simp add: fsub_def c64_def roundings)
  have dd: "fsub (c64 0.6) (c64 0.7) = Fin (- (900719925474099 / 9007199254740992))"
    by (simp add: fsub_def c64_def roundings)
  have yes: "fgt (fabs (fsub (Result_JLIScore ?up) (Result_JLIScore ?old))) (c64 0.1)
     \<or> (\<exists>s\<in>set (signalsOf ?up). SignalID s \<notin> SignalID ` set (signalsOf ?old))"
    by (simp add: example_scan_def analysisOf_def signalsOf_def fsub_def fgt_def c64_def roundings)
  have no: "\<not> (fgt (fabs (fsub (Result_JLIScore ?down) (Result_JLIScore ?old))) (c64 0.1)
     \<or> (\<exists>s\<in>set (signalsOf ?down). SignalID s \<notin> SignalID ` set (signalsOf ?old)))"
    by (simp add: lower_scan_def analysisOf_def signalsOf_def fsub_def fgt_def c64_def roundings)
  from mp [OF conjunct1 [OF tick_records_change [where monitor = example_monitor
        and old = ?old and L = lib0 and now = 300 and analyze = example_scan and new = ?up]]
      conjI [OF a conjI [OF l u]]] yes
  obtain monitor' change where "tick lib0 300 example_scan example_monitor = (Looping, monitor')"
    "LastResult monitor' = Some ?up"
    "Changes monitor' = Changes example_monitor @ [change]"
    "OldScore change = Result_JLIScore ?old" "NewScore change = Result_JLIScore ?up"
    by (simp only: if_True) blast
  then have A: "\<exists>monitor' change. tick lib0 300 example_scan example_monitor = (Looping, monitor')
         \<and> LastResult monitor' = Some ?up
         \<and> Changes monitor' = Changes example_monitor @ [change]
         \<and> OldScore change = c64 0.7 \<and> NewScore change = c64 0.8"
    by (auto simp: example_scan_def analysisOf_def)
  from mp [OF conjunct1 [OF tick_records_change [where monitor = example_monitor
        and old = ?old and L = lib0 and now = 300 and analyze = lower_scan and new = ?down]]
      conjI [OF a conjI [OF l d]]] no
  have B: "\<exists>monitor'. tick lib0 300 lower_scan example_monitor = (Looping, monitor')
         \<and> LastResult monitor' = Some ?down
         \<and> Changes monitor' = Changes example_monitor"
    by (simp only: if_False)
  show ?thesis by (rule conjI [OF a conjI [OF l conjI [OF du conjI [OF A conjI [OF dd B]]]]])
qed

end
